theory Spec2Isabelle
  imports Main "HOL-Library.Sublist" "HOL-Library.Char_ord"
begin

section \<open>GIFify: the upload and transcoding server (server.js)\<close>

text \<open>
  A shallow embedding of the Express server of the repository. JavaScript strings are
  modelled as \<open>string\<close>: one \<open>char\<close> stands for one code unit of the source string.
  The regular expression of \<open>sanitizeFilename\<close> has no \<open>u\<close> flag, so it works code
  unit by code unit, as the model does character by character.
\<close>

subsection \<open>Filename sanitizer\<close>

text \<open>The character class \<^verbatim>\<open>[a-zA-Z0-9._-]\<close> that the regular expression negates.\<close>

definition safe_char :: "char \<Rightarrow> bool" where
  "safe_char c \<longleftrightarrow>
     (CHR ''a'' \<le> c \<and> c \<le> CHR ''z'') \<or>
     (CHR ''A'' \<le> c \<and> c \<le> CHR ''Z'') \<or>
     (CHR ''0'' \<le> c \<and> c \<le> CHR ''9'') \<or>
     c = CHR ''.'' \<or> c = CHR ''_'' \<or> c = CHR ''-''"

text \<open>
  \<^verbatim>\<open>filename.replace(/[^a-zA-Z0-9._-]/g, '_')\<close>: a global replace of single characters,
  scanning the string from left to right.
\<close>

fun sanitizeFilename :: "string \<Rightarrow> string" where
  "sanitizeFilename [] = []"
| "sanitizeFilename (c # cs) =
     (if safe_char c then c # sanitizeFilename cs else CHR ''_'' # sanitizeFilename cs)"

subsection \<open>Configuration (the CONFIG object)\<close>

definition MAX_FILE_SIZE :: nat where
  "MAX_FILE_SIZE = 100 * 1024 * 1024"

definition FFMPEG_TIMEOUT :: nat where
  "FFMPEG_TIMEOUT = 120000"

definition ALLOWED_MIME_TYPES :: "string list" where
  "ALLOWED_MIME_TYPES =
     [''video/mp4'', ''video/quicktime'', ''video/x-msvideo'',
      ''video/x-matroska'', ''video/webm'', ''video/mpeg'']"

record preset =
  fps :: nat
  scale :: nat
  colors :: nat

text \<open>The own properties of \<^verbatim>\<open>CONFIG.QUALITY_PRESETS\<close>, in the order of the literal.\<close>

definition QUALITY_PRESETS :: "(string \<times> preset) list" where
  "QUALITY_PRESETS =
     [(''low'', \<lparr>fps = 10, scale = 320, colors = 128\<rparr>),
      (''medium'', \<lparr>fps = 15, scale = 480, colors = 256\<rparr>),
      (''high'', \<lparr>fps = 20, scale = 640, colors = 256\<rparr>)]"

text \<open>
  \<^verbatim>\<open>CONFIG.QUALITY_PRESETS[quality]\<close> is a property read on an object literal: the own
  properties first, then the members the literal inherits from \<^verbatim>\<open>Object.prototype\<close>
  (functions, and for \<^verbatim>\<open>__proto__\<close> the prototype object: all truthy, none of them
  with a property \<^verbatim>\<open>fps\<close>, \<^verbatim>\<open>scale\<close> or \<^verbatim>\<open>colors\<close>), and \<^verbatim>\<open>undefined\<close> otherwise.
\<close>

datatype js_value = PresetObject preset | PrototypeMember | Undefined

definition Object_prototype_keys :: "string list" where
  "Object_prototype_keys =
     [''constructor'', ''__proto__'', ''hasOwnProperty'', ''isPrototypeOf'',
      ''propertyIsEnumerable'', ''toLocaleString'', ''toString'', ''valueOf'',
      ''__defineGetter__'', ''__defineSetter__'', ''__lookupGetter__'',
      ''__lookupSetter__'']"

definition get_property :: "(string \<times> preset) list \<Rightarrow> string \<Rightarrow> js_value" where
  "get_property obj k =
     (case map_of obj k of
        Some p \<Rightarrow> PresetObject p
      | None \<Rightarrow> if k \<in> set Object_prototype_keys then PrototypeMember else Undefined)"

fun truthy :: "js_value \<Rightarrow> bool" where
  "truthy Undefined = False"
| "truthy _ = True"

text \<open>\<^verbatim>\<open>Object.keys(CONFIG.QUALITY_PRESETS)\<close>: the own enumerable keys, in insertion order.\<close>

definition Object_keys :: "(string \<times> preset) list \<Rightarrow> string list" where
  "Object_keys obj = map fst obj"

subsection \<open>Numbers and strings in template literals\<close>

text \<open>The character of a decimal digit \<open>d < 10\<close>.\<close>

definition digit_char :: "nat \<Rightarrow> char" where
  "digit_char d = ''0123456789'' ! d"

text \<open>
  The decimal rendering of a non-negative integer, as a template literal gives it for
  \<^verbatim>\<open>Date.now()\<close> and for the fields of a preset.
\<close>

fun string_of_nat :: "nat \<Rightarrow> string" where
  "string_of_nat n =
     (if n < 10 then [digit_char n]
      else string_of_nat (n div 10) @ [digit_char (n mod 10)])"

declare string_of_nat.simps [simp del]

text \<open>A field of the looked-up preset inside a template literal.\<close>

fun show_field :: "(preset \<Rightarrow> nat) \<Rightarrow> js_value \<Rightarrow> string" where
  "show_field f (PresetObject p) = string_of_nat (f p)"
| "show_field f _ = ''undefined''"

text \<open>\<^verbatim>\<open>xs.join(sep)\<close> on an array of strings.\<close>

fun join_with :: "string \<Rightarrow> string list \<Rightarrow> string" where
  "join_with sep [] = []"
| "join_with sep [x] = x"
| "join_with sep (x # y # ys) = x @ sep @ join_with sep (y # ys)"

text \<open>\<^verbatim>\<open>s.includes(sub)\<close>: \<open>sub\<close> occurs in \<open>s\<close> as a contiguous run.\<close>

fun str_includes :: "string \<Rightarrow> string \<Rightarrow> bool" where
  "str_includes [] sub = (sub = [])"
| "str_includes (c # cs) sub = (prefix sub (c # cs) \<or> str_includes cs sub)"

subsection \<open>Paths (Node's path module on names without a directory separator)\<close>

text \<open>
  The server runs from the image's working directory (Dockerfile: WORKDIR /usr/src/app,
  CMD node server.js), so \<^verbatim>\<open>__dirname\<close> is that directory.
\<close>

definition dirname :: string where
  "dirname = ''/usr/src/app''"

text \<open>
  \<^verbatim>\<open>path.join(dir, name)\<close> for a normalized directory and a name that has no
  separator and is not a dot segment.
\<close>

definition path_join :: "string \<Rightarrow> string \<Rightarrow> string" where
  "path_join dir name = dir @ ''/'' @ name"

definition uploadDir :: string where
  "uploadDir = path_join dirname ''uploads''"

text \<open>
  \<^verbatim>\<open>path.extname(name)\<close>: from the last dot to the end; empty when the name has no
  dot, when its last dot is its first character, and for \<^verbatim>\<open>..\<close>.
\<close>

definition extname :: "string \<Rightarrow> string" where
  "extname p =
     (let n = length (takeWhile (\<lambda>c. c \<noteq> CHR ''.'') (rev p)) in
      if n = length p then []
      else if Suc n = length p then []
      else if p = ''..'' then []
      else drop (length p - Suc n) p)"

text \<open>
  \<^verbatim>\<open>path.basename(name, ext)\<close>: the name without the suffix \<open>ext\<close>, when \<open>ext\<close> is
  not empty and the name ends with it; the empty string when the name is \<open>ext\<close> itself.
\<close>

definition basename :: "string \<Rightarrow> string \<Rightarrow> string" where
  "basename p ext =
     (if ext \<noteq> [] \<and> length ext \<le> length p then
        (if ext = p then []
         else if suffix ext p then take (length p - length ext) p
         else p)
      else p)"

subsection \<open>Errors, log, responses and the state of the server\<close>

text \<open>
  An \<^verbatim>\<open>Error\<close> object: its message, and for a \<^verbatim>\<open>multer.MulterError\<close> its code
  (\<open>None\<close> for every other error). The stack of an error is read by the logger only.
\<close>

record js_error =
  message :: string
  multer_code :: "string option"

definition Error :: "string \<Rightarrow> js_error" where
  "Error msg = \<lparr>message = msg, multer_code = None\<rparr>"

definition MulterError :: "string \<Rightarrow> string \<Rightarrow> js_error" where
  "MulterError c msg = \<lparr>message = msg, multer_code = Some c\<rparr>"

datatype json = JString string | JNumber nat | JArray "string list"

text \<open>
  A line of the structured log: \<^verbatim>\<open>logger.info(message, meta)\<close> or
  \<^verbatim>\<open>logger.error(message, error, meta)\<close>; the latter writes the message and the stack
  of \<open>error\<close>.
\<close>

datatype log_entry =
  LogInfo string "(string \<times> json) list"
| LogError string js_error "(string \<times> json) list"

datatype body = Json "(string \<times> json) list" | SendFile string

record response =
  status :: nat
  body :: body

text \<open>
  The state a request can change: the files that exist, the log, and the external
  commands started so far (each with the timeout of its race, oldest first).
  \<open>undeletable\<close> holds the paths on which \<^verbatim>\<open>fs.promises.unlink\<close> rejects.
\<close>

record server =
  files :: "string set"
  undeletable :: "string set"
  log :: "log_entry list"
  launched :: "(string \<times> nat) list"

definition logger_info :: "string \<Rightarrow> (string \<times> json) list \<Rightarrow> server \<Rightarrow> server" where
  "logger_info msg meta s = s\<lparr>log := log s @ [LogInfo msg meta]\<rparr>"

definition logger_error ::
  "string \<Rightarrow> js_error \<Rightarrow> (string \<times> json) list \<Rightarrow> server \<Rightarrow> server" where
  "logger_error msg err meta s = s\<lparr>log := log s @ [LogError msg err meta]\<rparr>"

subsection \<open>The upload (multer)\<close>

text \<open>The file part of a multipart request, and \<^verbatim>\<open>req.file\<close> once it is stored.\<close>

record upload =
  originalname :: string
  mimetype :: string
  filesize :: nat

record req_file =
  filename :: string
  path :: string
  stored_size :: nat

text \<open>
  The run of an external command: the time in milliseconds after which the process
  ends, its exit code and outputs, and the files it has written when the race with the
  timer is decided.
\<close>

record proc_run =
  settle :: nat
  exit_code :: nat
  stdout :: string
  stderr :: string
  written :: "string set"

text \<open>
  What a request meets outside the server: the clock (\<^verbatim>\<open>Date.now()\<close> when the upload
  is named and when the palette is named), the run of each external command, and the
  error of the file transfer, if any.
\<close>

record env =
  now_upload :: nat
  now_palette :: nat
  run :: "string \<Rightarrow> proc_run"
  send_error :: "js_error option"

text \<open>The multipart fields of a request: the file field \<^verbatim>\<open>video\<close> and the text field
  \<^verbatim>\<open>quality\<close> (\<^verbatim>\<open>req.body.quality\<close>), each possibly absent.\<close>

record request =
  video :: "upload option"
  quality :: "string option"

text \<open>\<^verbatim>\<open>storage.filename\<close> and the path multer gives the stored file.\<close>

definition storage_filename :: "env \<Rightarrow> upload \<Rightarrow> string" where
  "storage_filename e f = string_of_nat (now_upload e) @ ''-'' @ sanitizeFilename (originalname f)"

definition diskStorage :: "env \<Rightarrow> upload \<Rightarrow> req_file" where
  "diskStorage e f =
     \<lparr>filename = storage_filename e f,
      path = path_join uploadDir (storage_filename e f),
      stored_size = filesize f\<rparr>"

definition fileFilter :: "upload \<Rightarrow> js_error + bool" where
  "fileFilter f =
     (if mimetype f \<in> set ALLOWED_MIME_TYPES then Inr True
      else Inl (Error (''Invalid file type. Allowed types: '' @
                       join_with '', '' ALLOWED_MIME_TYPES)))"

text \<open>
  \<^verbatim>\<open>upload.single('video')\<close>: the filter runs on the part's header, the size limit
  while the part is written. An error goes to the error handler; otherwise the route's
  handler runs, with \<^verbatim>\<open>req.file\<close> undefined when the request has no file.
\<close>

definition upload_single ::
  "env \<Rightarrow> request \<Rightarrow> server \<Rightarrow> js_error + (req_file option \<times> server)" where
  "upload_single e req s =
     (case video req of
        None \<Rightarrow> Inr (None, s)
      | Some f \<Rightarrow>
          (case fileFilter f of
             Inl err \<Rightarrow> Inl err
           | Inr _ \<Rightarrow>
               if filesize f > MAX_FILE_SIZE
               then Inl (MulterError ''LIMIT_FILE_SIZE'' ''File too large'')
               else Inr (Some (diskStorage e f),
                         s\<lparr>files := insert (path (diskStorage e f)) (files s)\<rparr>)))"

subsection \<open>External process runner\<close>

definition maxBuffer :: nat where
  "maxBuffer = 50 * 1024 * 1024"

text \<open>
  The promisified \<^verbatim>\<open>exec(command, {maxBuffer})\<close> of Node's child_process, on a run that
  has ended: it rejects when an output stream outgrows the buffer and when the exit code
  is not zero, then with the message \<^verbatim>\<open>Command failed: <command>\n<stderr>\<close>; otherwise
  it resolves with the two outputs.
\<close>

definition execAsync :: "string \<Rightarrow> proc_run \<Rightarrow> js_error + (string \<times> string)" where
  "execAsync command r =
     (if length (stdout r) > maxBuffer then Inl (Error ''stdout maxBuffer length exceeded'')
      else if length (stderr r) > maxBuffer then Inl (Error ''stderr maxBuffer length exceeded'')
      else if exit_code r \<noteq> 0
      then Inl (Error (''Command failed: '' @ command @ [CHR 0x0A] @ stderr r))
      else Inr (stdout r, stderr r))"

text \<open>
  \<^verbatim>\<open>execWithTimeout(command, timeout)\<close>, on the run the command takes: the process is
  raced against a timer of \<open>timeout\<close> milliseconds. The process wins when it ends no
  later than the timer fires; otherwise the race rejects with the timeout error (the
  process is not stopped).
\<close>

definition execWithTimeout ::
  "string \<Rightarrow> nat \<Rightarrow> proc_run \<Rightarrow> js_error + (string \<times> string)" where
  "execWithTimeout command timeout r =
     (if settle r \<le> timeout then execAsync command r
      else Inl (Error ''FFmpeg execution timeout''))"

text \<open>
  The state once the race is decided: the launch is recorded, and the files the
  process has written by then exist.
\<close>

definition started :: "env \<Rightarrow> string \<Rightarrow> nat \<Rightarrow> server \<Rightarrow> server" where
  "started e command timeout s =
     s\<lparr>files := files s \<union> written (run e command),
       launched := launched s @ [(command, timeout)]\<rparr>"

subsection \<open>Cleanup\<close>

definition existsSync :: "string \<Rightarrow> server \<Rightarrow> bool" where
  "existsSync p s \<longleftrightarrow> p \<in> files s"

text \<open>\<^verbatim>\<open>fs.promises.unlink\<close>: rejects on a missing file and on a path it may not delete.\<close>

definition unlink :: "string \<Rightarrow> server \<Rightarrow> js_error + server" where
  "unlink p s =
     (if p \<notin> files s
      then Inl (Error (''ENOENT: no such file or directory, unlink '' @ p))
      else if p \<in> undeletable s
      then Inl (Error (''EPERM: operation not permitted, unlink '' @ p))
      else Inr (s\<lparr>files := files s - {p}\<rparr>))"

text \<open>The body of the \<^verbatim>\<open>try\<close> block of \<^verbatim>\<open>cleanupFiles\<close>, for one path.\<close>

definition cleanup_try :: "string \<Rightarrow> server \<Rightarrow> js_error + server" where
  "cleanup_try filePath s =
     (if existsSync filePath s then
        (case unlink filePath s of
           Inl err \<Rightarrow> Inl err
         | Inr s' \<Rightarrow> Inr (logger_info ''File cleaned up'' [(''path'', JString filePath)] s'))
      else Inr s)"

text \<open>One turn of the loop: the \<^verbatim>\<open>try\<close> block with its \<^verbatim>\<open>catch\<close>.\<close>

definition cleanup_step :: "string \<Rightarrow> server \<Rightarrow> js_error + server" where
  "cleanup_step filePath s =
     (case cleanup_try filePath s of
        Inl err \<Rightarrow> Inr (logger_error ''Failed to cleanup file'' err [(''path'', JString filePath)] s)
      | Inr s' \<Rightarrow> Inr s')"

text \<open>The loop over the paths; an error that left a turn would end the loop.\<close>

fun cleanupFiles :: "string list \<Rightarrow> server \<Rightarrow> js_error + server" where
  "cleanupFiles [] s = Inr s"
| "cleanupFiles (filePath # rest) s =
     (case cleanup_step filePath s of
        Inl err \<Rightarrow> Inl err
      | Inr s' \<Rightarrow> cleanupFiles rest s')"

subsection \<open>The handlers\<close>

text \<open>
  A handler is an async function: \<open>Inr\<close> holds the response it sends (\<open>None\<close> when
  it returns without a response) and the state it leaves, \<open>Inl\<close> an error it would
  reject with, sending nothing.
\<close>

text \<open>
  \<^verbatim>\<open>res.sendFile(p, callback)\<close>: the error the callback is called with, if any. The
  transfer fails when the file does not exist, and otherwise when the environment makes
  it fail (the client went away).
\<close>

definition sendFile_error :: "env \<Rightarrow> string \<Rightarrow> server \<Rightarrow> js_error option" where
  "sendFile_error e p s =
     (if p \<notin> files s then Some (Error (''ENOENT: no such file or directory, stat '' @ p))
      else send_error e)"

text \<open>
  \<^verbatim>\<open>res.sendFile(p, callback)\<close> with the callback of the handlers: the file is the
  response (status 200) when the transfer succeeds; when it fails, the callback logs the
  error and no response is sent. The files are cleaned up in both cases.
\<close>

definition sendFile ::
  "env \<Rightarrow> string \<Rightarrow> string \<Rightarrow> string list \<Rightarrow> server \<Rightarrow>
     js_error + (response option \<times> server)" where
  "sendFile e errmsg p paths s =
     (case sendFile_error e p s of
        Some err \<Rightarrow>
          (case cleanupFiles paths (logger_error errmsg err [] s) of
             Inl err' \<Rightarrow> Inl err'
           | Inr s2 \<Rightarrow> Inr (None, s2))
      | None \<Rightarrow>
          (case cleanupFiles paths s of
             Inl err' \<Rightarrow> Inl err'
           | Inr s2 \<Rightarrow> Inr (Some \<lparr>status = 200, body = SendFile p\<rparr>, s2)))"

definition thumbnailPath :: "req_file \<Rightarrow> string" where
  "thumbnailPath f =
     path_join uploadDir
       (''thumb-'' @ basename (filename f) (extname (filename f)) @ ''.jpg'')"

definition thumbnailCmd :: "string \<Rightarrow> string \<Rightarrow> string" where
  \<open>thumbnailCmd inputPath thumbPath =
     ''ffmpeg -i "'' @ inputPath @ ''" -ss 00:00:01 -vframes 1 -vf "scale=320:-1" "'' @
     thumbPath @ ''"''\<close>

definition thumbnail_handler ::
  "env \<Rightarrow> req_file option \<Rightarrow> server \<Rightarrow> js_error + (response option \<times> server)" where
  "thumbnail_handler e reqfile s =
     (case reqfile of
        None \<Rightarrow>
          Inr (Some (\<lparr>status = 400, body = Json [(''error'', JString ''No video file uploaded'')]\<rparr>), s)
      | Some f \<Rightarrow>
          (let inputPath = path f;
               thumbPath = thumbnailPath f;
               s1 = logger_info ''Generating thumbnail'' [(''input'', JString inputPath)] s;
               command = thumbnailCmd inputPath thumbPath;
               s2 = started e command 30000 s1
           in case execWithTimeout command 30000 (run e command) of
                Inr _ \<Rightarrow>
                  sendFile e ''Error sending thumbnail'' thumbPath [inputPath, thumbPath] s2
              | Inl error \<Rightarrow>
                  (case cleanupFiles [inputPath, thumbPath]
                          (logger_error ''Thumbnail generation failed'' error
                             [(''input'', JString inputPath)] s2) of
                     Inl err \<Rightarrow> Inl err
                   | Inr s3 \<Rightarrow>
                       Inr (Some (\<lparr>status = 500,
                             body = Json [(''error'', JString ''Failed to generate thumbnail''),
                                          (''details'', JString (message error))]\<rparr>), s3))))"

text \<open>\<^verbatim>\<open>req.body.quality || 'medium'\<close>: an absent field and the empty string are falsy.\<close>

definition or_default :: "string option \<Rightarrow> string \<Rightarrow> string" where
  "or_default v d = (case v of None \<Rightarrow> d | Some x \<Rightarrow> if x = [] then d else x)"

definition outputPath :: "req_file \<Rightarrow> string" where
  "outputPath f =
     path_join uploadDir (basename (filename f) (extname (filename f)) @ ''.gif'')"

definition paletteFile :: "env \<Rightarrow> string" where
  "paletteFile e = path_join uploadDir (''palette-'' @ string_of_nat (now_palette e) @ ''.png'')"

definition paletteCmd :: "string \<Rightarrow> js_value \<Rightarrow> string \<Rightarrow> string" where
  \<open>paletteCmd inputPath preset palette =
     ''ffmpeg -i "'' @ inputPath @ ''" -vf "fps='' @ show_field fps preset @
     '',scale='' @ show_field scale preset @
     '':-1:flags=lanczos,palettegen=max_colors='' @ show_field colors preset @
     ''" -y "'' @ palette @ ''"''\<close>

definition convertCmd :: "string \<Rightarrow> string \<Rightarrow> js_value \<Rightarrow> string \<Rightarrow> string" where
  \<open>convertCmd inputPath palette preset outPath =
     ''ffmpeg -i "'' @ inputPath @ ''" -i "'' @ palette @ ''" -lavfi "fps='' @
     show_field fps preset @ '',scale='' @ show_field scale preset @
     '':-1:flags=lanczos[x];[x][1:v]paletteuse" -y "'' @ outPath @ ''"''\<close>

text \<open>The response the \<^verbatim>\<open>catch\<close> block of the /convert handler chooses for an error.\<close>

definition convert_error_response :: "js_error \<Rightarrow> response" where
  "convert_error_response error =
     (if str_includes (message error) ''timeout''
      then \<lparr>status = 408,
            body = Json [(''error'', JString ''Conversion timeout''),
                         (''details'', JString
                            ''Video processing took too long. Try a shorter video or lower quality.'')]\<rparr>
      else \<lparr>status = 500,
            body = Json [(''error'', JString ''Video conversion failed''),
                         (''details'', JString (message error))]\<rparr>)"

text \<open>The \<^verbatim>\<open>catch\<close> block of the /convert handler: log, clean up, respond.\<close>

definition convert_catch ::
  "string \<Rightarrow> string \<Rightarrow> js_error \<Rightarrow> server \<Rightarrow> js_error + (response option \<times> server)" where
  "convert_catch inputPath outPath error s =
     (case cleanupFiles [inputPath, outPath]
             (logger_error ''Video conversion failed'' error
                [(''input'', JString inputPath), (''output'', JString outPath)] s) of
        Inl err \<Rightarrow> Inl err
      | Inr s1 \<Rightarrow> Inr (Some (convert_error_response error), s1))"

definition convert_handler ::
  "env \<Rightarrow> req_file option \<Rightarrow> string option \<Rightarrow> server \<Rightarrow> js_error + (response option \<times> server)" where
  "convert_handler e reqfile body_quality s =
     (case reqfile of
        None \<Rightarrow>
          Inr (Some (\<lparr>status = 400, body = Json [(''error'', JString ''No video file uploaded'')]\<rparr>), s)
      | Some f \<Rightarrow>
          (let quality = or_default body_quality ''medium'' in
           if \<not> truthy (get_property QUALITY_PRESETS quality)
           then Inr (Some (\<lparr>status = 400,
                      body = Json [(''error'', JString ''Invalid quality setting''),
                                   (''allowed'', JArray (Object_keys QUALITY_PRESETS))]\<rparr>), s)
           else
             (let preset = get_property QUALITY_PRESETS quality;
                  inputPath = path f;
                  outPath = outputPath f;
                  s1 = logger_info ''Starting video conversion''
                         [(''input'', JString inputPath), (''quality'', JString quality),
                          (''fileSize'', JNumber (stored_size f))] s;
                  palette = paletteFile e;
                  cmd1 = paletteCmd inputPath preset palette;
                  s2 = started e cmd1 (FFMPEG_TIMEOUT div 2) s1
              in case execWithTimeout cmd1 (FFMPEG_TIMEOUT div 2) (run e cmd1) of
                   Inl error \<Rightarrow> convert_catch inputPath outPath error s2
                 | Inr _ \<Rightarrow>
                     (let cmd2 = convertCmd inputPath palette preset outPath;
                          s3 = started e cmd2 FFMPEG_TIMEOUT s2
                      in case execWithTimeout cmd2 FFMPEG_TIMEOUT (run e cmd2) of
                           Inl error \<Rightarrow> convert_catch inputPath outPath error s3
                         | Inr _ \<Rightarrow>
                             sendFile e ''Error sending GIF file'' outPath
                               [inputPath, outPath, palette]
                               (logger_info ''Conversion successful''
                                  [(''output'', JString outPath), (''quality'', JString quality)]
                                  s3)))))"

subsection \<open>The error handler and the two routes\<close>

text \<open>
  The global error handler. It is called with an error object, so the test
  \<^verbatim>\<open>if (error)\<close> holds and the final \<^verbatim>\<open>next()\<close> is not reached.
\<close>

definition error_handler :: "js_error \<Rightarrow> server \<Rightarrow> response \<times> server" where
  "error_handler error s =
     (case multer_code error of
        Some c \<Rightarrow>
          (if c = ''LIMIT_FILE_SIZE''
           then (\<lparr>status = 413,
                  body = Json [(''error'', JString ''File too large''),
                               (''maxSize'', JString
                                  (string_of_nat (MAX_FILE_SIZE div (1024 * 1024)) @ ''MB''))]\<rparr>,
                 logger_error ''Multer error'' error [] s)
           else (\<lparr>status = 400,
                  body = Json [(''error'', JString ''File upload error''),
                               (''details'', JString (message error))]\<rparr>,
                 logger_error ''Multer error'' error [] s))
      | None \<Rightarrow>
          (\<lparr>status = 500,
            body = Json [(''error'', JString ''Internal server error''),
                         (''details'', JString (message error))]\<rparr>,
           logger_error ''Unexpected error'' error [] s))"

text \<open>\<^verbatim>\<open>app.post('/thumbnail', upload.single('video'), handler)\<close>, with the error handler.\<close>

definition post_thumbnail :: "env \<Rightarrow> request \<Rightarrow> server \<Rightarrow> js_error + (response option \<times> server)" where
  "post_thumbnail e req s =
     (case upload_single e req s of
        Inl err \<Rightarrow> (case error_handler err s of (r, s1) \<Rightarrow> Inr (Some r, s1))
      | Inr (reqfile, s1) \<Rightarrow> thumbnail_handler e reqfile s1)"

text \<open>\<^verbatim>\<open>app.post('/convert', upload.single('video'), handler)\<close>, with the error handler.\<close>

definition post_convert :: "env \<Rightarrow> request \<Rightarrow> server \<Rightarrow> js_error + (response option \<times> server)" where
  "post_convert e req s =
     (case upload_single e req s of
        Inl err \<Rightarrow> (case error_handler err s of (r, s1) \<Rightarrow> Inr (Some r, s1))
      | Inr (reqfile, s1) \<Rightarrow> convert_handler e reqfile (quality req) s1)"

subsection \<open>Vocabulary of the properties\<close>

text \<open>The status a route answers with; \<open>None\<close> when it sends no response.\<close>

definition response_status :: "js_error + (response option \<times> server) \<Rightarrow> nat option" where
  "response_status out =
     (case out of Inl _ \<Rightarrow> None | Inr (r, _) \<Rightarrow> map_option status r)"

text \<open>The files that exist and the commands started once a route is done.\<close>

definition final_files :: "js_error + (response option \<times> server) \<Rightarrow> string set" where
  "final_files out = (case out of Inl _ \<Rightarrow> {} | Inr (_, s) \<Rightarrow> files s)"

definition final_launched :: "js_error + (response option \<times> server) \<Rightarrow> (string \<times> nat) list" where
  "final_launched out = (case out of Inl _ \<Rightarrow> [] | Inr (_, s) \<Rightarrow> launched s)"

definition response_body :: "js_error + (response option \<times> server) \<Rightarrow> body option" where
  "response_body out =
     (case out of Inl _ \<Rightarrow> None | Inr (r, _) \<Rightarrow> map_option body r)"

text \<open>An upload that multer stores: its declared type is allowed and it is not too large.\<close>

definition accepted :: "upload \<Rightarrow> bool" where
  "accepted f \<longleftrightarrow> mimetype f \<in> set ALLOWED_MIME_TYPES \<and> filesize f \<le> MAX_FILE_SIZE"

text \<open>The preset a /convert request selects, and the commands of its two stages.\<close>

definition chosen_preset :: "request \<Rightarrow> js_value" where
  "chosen_preset req = get_property QUALITY_PRESETS (or_default (quality req) ''medium'')"

definition stage1_cmd :: "env \<Rightarrow> upload \<Rightarrow> request \<Rightarrow> string" where
  "stage1_cmd e f req =
     paletteCmd (path (diskStorage e f)) (chosen_preset req) (paletteFile e)"

definition stage2_cmd :: "env \<Rightarrow> upload \<Rightarrow> request \<Rightarrow> string" where
  "stage2_cmd e f req =
     convertCmd (path (diskStorage e f)) (paletteFile e) (chosen_preset req)
       (outputPath (diskStorage e f))"

text \<open>The command of a /thumbnail request.\<close>

definition thumb_cmd :: "env \<Rightarrow> upload \<Rightarrow> string" where
  "thumb_cmd e f = thumbnailCmd (path (diskStorage e f)) (thumbnailPath (diskStorage e f))"

text \<open>A command exceeds its timeout when its run ends after the timer fires.\<close>

definition timed_out :: "env \<Rightarrow> string \<Rightarrow> nat \<Rightarrow> bool" where
  "timed_out e command timeout \<longleftrightarrow> timeout < settle (run e command)"

text \<open>The error of a stage, if it fails, and the error the /convert handler catches.\<close>

definition stage_error :: "env \<Rightarrow> string \<Rightarrow> nat \<Rightarrow> js_error option" where
  "stage_error e command timeout =
     (case execWithTimeout command timeout (run e command) of
        Inl err \<Rightarrow> Some err
      | Inr _ \<Rightarrow> None)"

definition convert_error :: "env \<Rightarrow> upload \<Rightarrow> request \<Rightarrow> js_error option" where
  "convert_error e f req =
     (case stage_error e (stage1_cmd e f req) (FFMPEG_TIMEOUT div 2) of
        Some err \<Rightarrow> Some err
      | None \<Rightarrow> stage_error e (stage2_cmd e f req) FFMPEG_TIMEOUT)"

text \<open>The four artifact paths a request can allocate: input, palette, output, thumbnail.\<close>

definition artifact_paths :: "env \<Rightarrow> upload \<Rightarrow> string list" where
  "artifact_paths e f =
     [path (diskStorage e f), paletteFile e, outputPath (diskStorage e f),
      thumbnailPath (diskStorage e f)]"

text \<open>Decimal digits, and names that start with the decimal rendering of \<open>t\<close> and a dash.\<close>

definition is_digit :: "char \<Rightarrow> bool" where
  "is_digit c \<longleftrightarrow> CHR ''0'' \<le> c \<and> c \<le> CHR ''9''"

definition stamped :: "nat \<Rightarrow> string \<Rightarrow> bool" where
  "stamped t x \<longleftrightarrow> (\<exists>rest. x = string_of_nat t @ ''-'' @ rest)"

subsection \<open>Example states, uploads and environments\<close>

text \<open>An empty upload directory, and an upload of five megabytes that multer stores.\<close>

definition server0 :: server where
  "server0 = \<lparr>files = {}, undeletable = {}, log = [], launched = []\<rparr>"

definition clip :: upload where
  "clip = \<lparr>originalname = ''my clip.mp4'', mimetype = ''video/mp4'', filesize = 5242880\<rparr>"

text \<open>
  An environment in which the upload is named at 1700000000000 and the palette a
  quarter of a second later, every transfer succeeds, and \<open>r\<close> gives the run of each
  command.
\<close>

definition env_with :: "(string \<Rightarrow> proc_run) \<Rightarrow> env" where
  "env_with r =
     \<lparr>now_upload = 1700000000000, now_palette = 1700000000250, run = r, send_error = None\<rparr>"

text \<open>A run that ends well after two seconds and writes nothing; the environment in
  which every command runs so.\<close>

definition run_ok :: proc_run where
  "run_ok = \<lparr>settle = 2000, exit_code = 0, stdout = [], stderr = [], written = {}\<rparr>"

definition env_ok :: env where
  "env_ok = env_with (\<lambda>command. run_ok)"

text \<open>
  An environment in which the palette stage succeeds and writes the palette file, and
  the encoding stage (the command with \<^verbatim>\<open>paletteuse\<close>) starts the output file and exits
  with code 1.
\<close>

definition run_palette :: proc_run where
  "run_palette =
     \<lparr>settle = 2000, exit_code = 0, stdout = [], stderr = [],
      written = {''/usr/src/app/uploads/palette-1700000000250.png''}\<rparr>"

definition run_encode_fails :: proc_run where
  "run_encode_fails =
     \<lparr>settle = 3000, exit_code = 1, stdout = [], stderr = ''Conversion failed!'',
      written = {''/usr/src/app/uploads/1700000000000-my_clip.gif''}\<rparr>"

definition env_stage2_fails :: env where
  "env_stage2_fails =
     env_with (\<lambda>command. if str_includes command ''paletteuse'' then run_encode_fails
                          else run_palette)"

text \<open>
  An environment in which both stages succeed: the palette stage writes the palette
  file and the encoding stage writes the output file.
\<close>

definition run_encode :: proc_run where
  "run_encode =
     \<lparr>settle = 3000, exit_code = 0, stdout = [], stderr = [],
      written = {''/usr/src/app/uploads/1700000000000-my_clip.gif''}\<rparr>"

definition env_converts :: env where
  "env_converts =
     env_with (\<lambda>command. if str_includes command ''paletteuse'' then run_encode
                          else run_palette)"

text \<open>An environment in which every command takes 130 seconds.\<close>

definition run_slow :: proc_run where
  "run_slow = \<lparr>settle = 130000, exit_code = 0, stdout = [], stderr = [], written = {}\<rparr>"

definition env_slow :: env where
  "env_slow = env_with (\<lambda>command. run_slow)"

text \<open>An environment in which every command exits with code 1 after half a second.\<close>

definition run_broken :: proc_run where
  "run_broken =
     \<lparr>settle = 500, exit_code = 1, stdout = [], stderr = ''moov atom not found'',
      written = {}\<rparr>"

definition env_broken :: env where
  "env_broken = env_with (\<lambda>command. run_broken)"

text \<open>A state with two files of an earlier request, one of which cannot be deleted.\<close>

definition server_busy :: server where
  "server_busy =
     \<lparr>files = {''/usr/src/app/uploads/1-a.mp4'', ''/usr/src/app/uploads/1-a.gif''},
      undeletable = {''/usr/src/app/uploads/1-a.gif''},
      log = [], launched = []\<rparr>"

text \<open>A second upload, whose name differs from that of \<open>clip\<close> in one character.\<close>

definition clip2 :: upload where
  "clip2 = \<lparr>originalname = ''my_clip.mp4'', mimetype = ''video/quicktime'', filesize = 1048576\<rparr>"

text \<open>An environment whose clock reads one millisecond later than that of \<open>env_with\<close>.\<close>

definition env_later :: env where
  "env_later =
     \<lparr>now_upload = 1700000000001, now_palette = 1700000000251, run = (\<lambda>command. run_ok),
      send_error = None\<rparr>"

text \<open>An upload whose file name holds the word timeout.\<close>

definition clip_timeout :: upload where
  "clip_timeout =
     \<lparr>originalname = ''timeout.mp4'', mimetype = ''video/mp4'', filesize = 5242880\<rparr>"

section \<open>Properties\<close>

subsection \<open>The sanitizer\<close>

lemma length_sanitizeFilename: "length (sanitizeFilename s) = length s"
  by (induction s) simp_all

lemma nth_sanitizeFilename:
  "i < length s \<Longrightarrow>
     sanitizeFilename s ! i = (if safe_char (s ! i) then s ! i else CHR ''_'')"
proof (induction s arbitrary: i)
  case Nil
  then show ?case by simp
next
  case (Cons c cs)
  then show ?case by (cases i) simp_all
qed

lemma safe_char_underscore: "safe_char (CHR ''_'')"
  by (simp add: safe_char_def)

lemma sanitizeFilename_safe: "list_all safe_char (sanitizeFilename s)"
  by (induction s) (simp_all add: safe_char_underscore)

lemma sanitizeFilename_fixed: "list_all safe_char s \<Longrightarrow> sanitizeFilename s = s"
  by (induction s) simp_all

text \<open>
  C7. For every input string, \<open>sanitizeFilename\<close> returns a string of the same length
  in which every character outside \<^verbatim>\<open>[A-Za-z0-9._-]\<close> is replaced by the placeholder
  \<^verbatim>\<open>_\<close> and every other character is kept, so the output contains only characters of
  the class. The function is total: it is defined by structural recursion and has no
  failing branch.
\<close>

theorem sanitize_replaces_unsafe:
  "length (sanitizeFilename s) = length s \<and>
   (\<forall>i < length s.
      (safe_char (s ! i) \<longrightarrow> sanitizeFilename s ! i = s ! i) \<and>
      (\<not> safe_char (s ! i) \<longrightarrow> sanitizeFilename s ! i = CHR ''_'')) \<and>
   list_all safe_char (sanitizeFilename s)"
  by (simp add: length_sanitizeFilename nth_sanitizeFilename sanitizeFilename_safe)

theorem sanitize_replaces_unsafe_witness:
  "length (sanitizeFilename ''a b;$(x).mp4'') = length ''a b;$(x).mp4'' \<and>
   (1::nat) < length ''a b;$(x).mp4'' \<and> \<not> safe_char (''a b;$(x).mp4'' ! 1) \<and>
   sanitizeFilename ''a b;$(x).mp4'' ! 1 = CHR ''_'' \<and>
   (0::nat) < length ''a b;$(x).mp4'' \<and> safe_char (''a b;$(x).mp4'' ! 0) \<and>
   sanitizeFilename ''a b;$(x).mp4'' ! 0 = CHR ''a'' \<and>
   sanitizeFilename ''a b;$(x).mp4'' = ''a_b___x_.mp4''"
  using sanitize_replaces_unsafe [of "''a b;$(x).mp4''"]
  by (simp add: safe_char_def)

text \<open>
  C10. \<open>sanitizeFilename\<close> is idempotent: its output consists of characters of the
  allowed class only, and each of them is a fixed point.
\<close>

theorem sanitize_idempotent:
  "sanitizeFilename (sanitizeFilename s) = sanitizeFilename s"
  by (rule sanitizeFilename_fixed) (rule sanitizeFilename_safe)

subsection \<open>Cleanup and the handlers: what each path of a request does\<close>

lemma cleanup_step_eq:
  "cleanup_step p s =
     Inr (if p \<in> files s then
            (if p \<in> undeletable s
             then logger_error ''Failed to cleanup file''
                    (Error (''EPERM: operation not permitted, unlink '' @ p))
                    [(''path'', JString p)] s
             else logger_info ''File cleaned up'' [(''path'', JString p)]
                    (s\<lparr>files := files s - {p}\<rparr>))
          else s)"
  by (simp add: cleanup_step_def cleanup_try_def existsSync_def unlink_def)

lemma cleanup_step_frame:
  assumes "cleanup_step p s = Inr s'"
  shows "files s' = files s - ({p} - undeletable s)"
    and "undeletable s' = undeletable s"
    and "launched s' = launched s"
  using assms
  by (auto simp: cleanup_step_eq logger_info_def logger_error_def split: if_splits)

lemma cleanupFiles_Inr:
  "\<exists>s'. cleanupFiles ps s = Inr s' \<and>
         files s' = files s - (set ps - undeletable s) \<and>
         undeletable s' = undeletable s \<and> launched s' = launched s"
proof (induction ps arbitrary: s)
  case Nil
  then show ?case by simp
next
  case (Cons p ps)
  obtain s1 where s1: "cleanup_step p s = Inr s1"
    by (simp add: cleanup_step_eq)
  from Cons.IH [of s1] obtain s' where s': "cleanupFiles ps s1 = Inr s'"
    "files s' = files s1 - (set ps - undeletable s1)"
    "undeletable s' = undeletable s1" "launched s' = launched s1"
    by blast
  have "files s' = files s - (set (p # ps) - undeletable s)"
    using s' cleanup_step_frame [OF s1] by auto
  then show ?case
    using s1 s' cleanup_step_frame [OF s1] by simp
qed

lemma cleanup_step_log_mono:
  "cleanup_step p s = Inr s' \<Longrightarrow> set (log s) \<subseteq> set (log s')"
  by (auto simp: cleanup_step_eq logger_info_def logger_error_def split: if_splits)

lemma cleanupFiles_log_mono:
  "cleanupFiles ps s = Inr s' \<Longrightarrow> set (log s) \<subseteq> set (log s')"
proof (induction ps arbitrary: s)
  case Nil
  then show ?case by simp
next
  case (Cons p ps)
  obtain s1 where s1: "cleanup_step p s = Inr s1"
    by (simp add: cleanup_step_eq)
  with Cons.prems have "cleanupFiles ps s1 = Inr s'" by simp
  from Cons.IH [OF this] cleanup_step_log_mono [OF s1] show ?case by blast
qed

lemma cleanupFiles_logs_failure:
  "cleanupFiles ps s = Inr s' \<Longrightarrow> p \<in> set ps \<Longrightarrow> p \<in> files s \<Longrightarrow> p \<in> undeletable s \<Longrightarrow>
     LogError ''Failed to cleanup file'' (Error (''EPERM: operation not permitted, unlink '' @ p))
       [(''path'', JString p)] \<in> set (log s')"
proof (induction ps arbitrary: s)
  case Nil
  then show ?case by simp
next
  case (Cons q ps)
  obtain s1 where s1: "cleanup_step q s = Inr s1"
    by (simp add: cleanup_step_eq)
  with Cons.prems have rest: "cleanupFiles ps s1 = Inr s'" by simp
  show ?case
  proof (cases "q = p")
    case True
    with s1 Cons.prems have "LogError ''Failed to cleanup file''
        (Error (''EPERM: operation not permitted, unlink '' @ p))
        [(''path'', JString p)] \<in> set (log s1)"
      by (auto simp: cleanup_step_eq logger_error_def)
    with cleanupFiles_log_mono [OF rest] show ?thesis by blast
  next
    case False
    with Cons.prems have "p \<in> set ps" by simp
    moreover have "p \<in> files s1" "p \<in> undeletable s1"
      using cleanup_step_frame [OF s1] Cons.prems False by auto
    ultimately show ?thesis using Cons.IH [OF rest] by blast
  qed
qed


lemma upload_single_accepted:
  "video req = Some f \<Longrightarrow> accepted f \<Longrightarrow>
     upload_single e req s =
       Inr (Some (diskStorage e f), s\<lparr>files := insert (path (diskStorage e f)) (files s)\<rparr>)"
  by (simp add: upload_single_def fileFilter_def accepted_def)

lemma sendFile_Inr:
  "\<exists>s'. sendFile e m p ps s =
            Inr (if p \<in> files s \<and> send_error e = None
                 then Some \<lparr>status = 200, body = SendFile p\<rparr> else None, s') \<and>
         files s' = files s - (set ps - undeletable s) \<and>
         undeletable s' = undeletable s \<and> launched s' = launched s"
proof (cases "sendFile_error e p s")
  case None
  then have ok: "p \<in> files s \<and> send_error e = None"
    by (simp add: sendFile_error_def split: if_splits)
  from cleanupFiles_Inr [of ps s] obtain s' where "cleanupFiles ps s = Inr s'"
    "files s' = files s - (set ps - undeletable s)"
    "undeletable s' = undeletable s" "launched s' = launched s" by blast
  with None ok show ?thesis
    by (simp add: sendFile_def)
next
  case (Some err)
  then have no: "\<not> (p \<in> files s \<and> send_error e = None)"
    by (auto simp: sendFile_error_def split: if_splits)
  define s1 where "s1 = logger_error m err [] s"
  have fr: "files s1 = files s" "undeletable s1 = undeletable s" "launched s1 = launched s"
    by (simp_all add: s1_def logger_error_def)
  from cleanupFiles_Inr [of ps s1] obtain s' where "cleanupFiles ps s1 = Inr s'"
    "files s' = files s1 - (set ps - undeletable s1)"
    "undeletable s' = undeletable s1" "launched s' = launched s1" by blast
  with fr Some no show ?thesis
    by (simp add: sendFile_def s1_def [symmetric])
qed

lemma convert_catch_Inr:
  "\<exists>s'. convert_catch i out err s = Inr (Some (convert_error_response err), s') \<and>
         files s' = files s - ({i, out} - undeletable s) \<and>
         undeletable s' = undeletable s \<and> launched s' = launched s"
proof -
  define s1 where "s1 = logger_error ''Video conversion failed'' err
      [(''input'', JString i), (''output'', JString out)] s"
  have fr: "files s1 = files s" "undeletable s1 = undeletable s" "launched s1 = launched s"
    by (simp_all add: s1_def logger_error_def)
  from cleanupFiles_Inr [of "[i, out]" s1] obtain s' where "cleanupFiles [i, out] s1 = Inr s'"
    "files s' = files s1 - (set [i, out] - undeletable s1)"
    "undeletable s' = undeletable s1" "launched s' = launched s1" by blast
  with fr show ?thesis
    by (simp add: convert_catch_def s1_def [symmetric])
qed

lemma started_frame:
  "files (started e c t s) = files s \<union> written (run e c)"
  "undeletable (started e c t s) = undeletable s"
  "launched (started e c t s) = launched s @ [(c, t)]"
  by (simp_all add: started_def)

lemma logger_info_frame:
  "files (logger_info m meta s) = files s"
  "undeletable (logger_info m meta s) = undeletable s"
  "launched (logger_info m meta s) = launched s"
  by (simp_all add: logger_info_def)

lemma logger_error_frame:
  "files (logger_error m err meta s) = files s"
  "undeletable (logger_error m err meta s) = undeletable s"
  "launched (logger_error m err meta s) = launched s"
  by (simp_all add: logger_error_def)

text \<open>The three ways a /convert request with a stored file and a known preset ends.\<close>

lemma post_convert_stage1_fails:
  assumes "video req = Some f" and "accepted f" and "truthy (chosen_preset req)"
    and "execWithTimeout (stage1_cmd e f req) (FFMPEG_TIMEOUT div 2) (run e (stage1_cmd e f req))
         = Inl err"
  shows "\<exists>s'. post_convert e req s = Inr (Some (convert_error_response err), s') \<and>
           files s' = (insert (path (diskStorage e f)) (files s) \<union> written (run e (stage1_cmd e f req)))
                       - ({path (diskStorage e f), outputPath (diskStorage e f)} - undeletable s) \<and>
           undeletable s' = undeletable s \<and>
           launched s' = launched s @ [(stage1_cmd e f req, FFMPEG_TIMEOUT div 2)]"
proof -
  define rf where "rf = diskStorage e f"
  define s0 where "s0 = s\<lparr>files := insert (path rf) (files s)\<rparr>"
  define s2 where "s2 = started e (stage1_cmd e f req) (FFMPEG_TIMEOUT div 2)
     (logger_info ''Starting video conversion''
        [(''input'', JString (path rf)),
         (''quality'', JString (or_default (quality req) ''medium'')),
         (''fileSize'', JNumber (stored_size rf))] s0)"
  have "post_convert e req s = convert_handler e (Some rf) (quality req) s0"
    using assms(1,2) by (simp add: post_convert_def upload_single_accepted rf_def s0_def)
  also have "\<dots> = convert_catch (path rf) (outputPath rf) err s2"
    using assms(3,4)
    by (simp add: convert_handler_def Let_def s2_def stage1_cmd_def chosen_preset_def rf_def)
  finally have eq: "post_convert e req s = convert_catch (path rf) (outputPath rf) err s2" .
  have fr: "files s2 = insert (path rf) (files s) \<union> written (run e (stage1_cmd e f req))"
    "undeletable s2 = undeletable s"
    "launched s2 = launched s @ [(stage1_cmd e f req, FFMPEG_TIMEOUT div 2)]"
    by (simp_all add: s2_def s0_def started_frame logger_info_frame)
  from convert_catch_Inr [of "path rf" "outputPath rf" err s2] eq fr
  show ?thesis by (simp add: rf_def)
qed

lemma post_convert_stage2_fails:
  assumes "video req = Some f" and "accepted f" and "truthy (chosen_preset req)"
    and "execWithTimeout (stage1_cmd e f req) (FFMPEG_TIMEOUT div 2) (run e (stage1_cmd e f req))
         = Inr out1"
    and "execWithTimeout (stage2_cmd e f req) FFMPEG_TIMEOUT (run e (stage2_cmd e f req))
         = Inl err"
  shows "\<exists>s'. post_convert e req s = Inr (Some (convert_error_response err), s') \<and>
           files s' = (insert (path (diskStorage e f)) (files s)
                         \<union> written (run e (stage1_cmd e f req))
                         \<union> written (run e (stage2_cmd e f req)))
                       - ({path (diskStorage e f), outputPath (diskStorage e f)} - undeletable s) \<and>
           undeletable s' = undeletable s \<and>
           launched s' = launched s @ [(stage1_cmd e f req, FFMPEG_TIMEOUT div 2),
                                       (stage2_cmd e f req, FFMPEG_TIMEOUT)]"
proof -
  define rf where "rf = diskStorage e f"
  define s0 where "s0 = s\<lparr>files := insert (path rf) (files s)\<rparr>"
  define s3 where "s3 = started e (stage2_cmd e f req) FFMPEG_TIMEOUT
     (started e (stage1_cmd e f req) (FFMPEG_TIMEOUT div 2)
       (logger_info ''Starting video conversion''
          [(''input'', JString (path rf)),
           (''quality'', JString (or_default (quality req) ''medium'')),
           (''fileSize'', JNumber (stored_size rf))] s0))"
  have "post_convert e req s = convert_handler e (Some rf) (quality req) s0"
    using assms(1,2) by (simp add: post_convert_def upload_single_accepted rf_def s0_def)
  also have "\<dots> = convert_catch (path rf) (outputPath rf) err s3"
    using assms(3,4,5)
    by (simp add: convert_handler_def Let_def s3_def stage1_cmd_def stage2_cmd_def
        chosen_preset_def rf_def)
  finally have eq: "post_convert e req s = convert_catch (path rf) (outputPath rf) err s3" .
  have fr: "files s3 = insert (path rf) (files s) \<union> written (run e (stage1_cmd e f req))
                         \<union> written (run e (stage2_cmd e f req))"
    "undeletable s3 = undeletable s"
    "launched s3 = launched s @ [(stage1_cmd e f req, FFMPEG_TIMEOUT div 2),
                                 (stage2_cmd e f req, FFMPEG_TIMEOUT)]"
    by (simp_all add: s3_def s0_def started_frame logger_info_frame)
  from convert_catch_Inr [of "path rf" "outputPath rf" err s3] eq fr
  show ?thesis by (simp add: rf_def)
qed

lemma post_convert_succeeds:
  assumes "video req = Some f" and "accepted f" and "truthy (chosen_preset req)"
    and "execWithTimeout (stage1_cmd e f req) (FFMPEG_TIMEOUT div 2) (run e (stage1_cmd e f req))
         = Inr out1"
    and "execWithTimeout (stage2_cmd e f req) FFMPEG_TIMEOUT (run e (stage2_cmd e f req))
         = Inr out2"
  shows "\<exists>s'. post_convert e req s =
              Inr (if outputPath (diskStorage e f) \<in>
                        insert (path (diskStorage e f)) (files s)
                          \<union> written (run e (stage1_cmd e f req))
                          \<union> written (run e (stage2_cmd e f req)) \<and>
                      send_error e = None
                   then Some \<lparr>status = 200, body = SendFile (outputPath (diskStorage e f))\<rparr>
                   else None, s') \<and>
           files s' = (insert (path (diskStorage e f)) (files s)
                         \<union> written (run e (stage1_cmd e f req))
                         \<union> written (run e (stage2_cmd e f req)))
                       - ({path (diskStorage e f), outputPath (diskStorage e f), paletteFile e}
                            - undeletable s) \<and>
           undeletable s' = undeletable s \<and>
           launched s' = launched s @ [(stage1_cmd e f req, FFMPEG_TIMEOUT div 2),
                                       (stage2_cmd e f req, FFMPEG_TIMEOUT)]"
proof -
  define rf where "rf = diskStorage e f"
  define s0 where "s0 = s\<lparr>files := insert (path rf) (files s)\<rparr>"
  define s4 where "s4 = logger_info ''Conversion successful''
     [(''output'', JString (outputPath rf)),
      (''quality'', JString (or_default (quality req) ''medium''))]
     (started e (stage2_cmd e f req) FFMPEG_TIMEOUT
       (started e (stage1_cmd e f req) (FFMPEG_TIMEOUT div 2)
         (logger_info ''Starting video conversion''
            [(''input'', JString (path rf)),
             (''quality'', JString (or_default (quality req) ''medium'')),
             (''fileSize'', JNumber (stored_size rf))] s0)))"
  have "post_convert e req s = convert_handler e (Some rf) (quality req) s0"
    using assms(1,2) by (simp add: post_convert_def upload_single_accepted rf_def s0_def)
  also have "\<dots> = sendFile e ''Error sending GIF file'' (outputPath rf)
                      [path rf, outputPath rf, paletteFile e] s4"
    using assms(3,4,5)
    by (simp add: convert_handler_def Let_def s4_def stage1_cmd_def stage2_cmd_def
        chosen_preset_def rf_def)
  finally have eq: "post_convert e req s = sendFile e ''Error sending GIF file'' (outputPath rf)
                      [path rf, outputPath rf, paletteFile e] s4" .
  have fr: "files s4 = insert (path rf) (files s) \<union> written (run e (stage1_cmd e f req))
                         \<union> written (run e (stage2_cmd e f req))"
    "undeletable s4 = undeletable s"
    "launched s4 = launched s @ [(stage1_cmd e f req, FFMPEG_TIMEOUT div 2),
                                 (stage2_cmd e f req, FFMPEG_TIMEOUT)]"
    by (simp_all add: s4_def s0_def started_frame logger_info_frame)
  from sendFile_Inr [of e "''Error sending GIF file''" "outputPath rf"
      "[path rf, outputPath rf, paletteFile e]" s4]
  show ?thesis
    unfolding eq fr rf_def [symmetric] list.set .
qed

lemma post_thumbnail_fails:
  assumes "video req = Some f" and "accepted f"
    and "execWithTimeout (thumb_cmd e f) 30000 (run e (thumb_cmd e f)) = Inl err"
  shows "\<exists>s'. post_thumbnail e req s =
              Inr (Some (\<lparr>status = 500,
                    body = Json [(''error'', JString ''Failed to generate thumbnail''),
                                 (''details'', JString (message err))]\<rparr>), s') \<and>
           files s' = (insert (path (diskStorage e f)) (files s) \<union> written (run e (thumb_cmd e f)))
                       - ({path (diskStorage e f), thumbnailPath (diskStorage e f)} - undeletable s) \<and>
           undeletable s' = undeletable s \<and>
           launched s' = launched s @ [(thumb_cmd e f, 30000)]"
proof -
  define rf where "rf = diskStorage e f"
  define s0 where "s0 = s\<lparr>files := insert (path rf) (files s)\<rparr>"
  define s3 where "s3 = logger_error ''Thumbnail generation failed'' err
     [(''input'', JString (path rf))]
     (started e (thumb_cmd e f) 30000
       (logger_info ''Generating thumbnail'' [(''input'', JString (path rf))] s0))"
  have fr: "files s3 = insert (path rf) (files s) \<union> written (run e (thumb_cmd e f))"
    "undeletable s3 = undeletable s"
    "launched s3 = launched s @ [(thumb_cmd e f, 30000)]"
    by (simp_all add: s3_def s0_def started_frame logger_info_frame logger_error_frame)
  from cleanupFiles_Inr [of "[path rf, thumbnailPath rf]" s3] obtain s' where
    s': "cleanupFiles [path rf, thumbnailPath rf] s3 = Inr s'"
    "files s' = files s3 - (set [path rf, thumbnailPath rf] - undeletable s3)"
    "undeletable s' = undeletable s3" "launched s' = launched s3" by blast
  have "post_thumbnail e req s = thumbnail_handler e (Some rf) s0"
    using assms(1,2) by (simp add: post_thumbnail_def upload_single_accepted rf_def s0_def)
  also have "\<dots> = Inr (Some (\<lparr>status = 500,
                    body = Json [(''error'', JString ''Failed to generate thumbnail''),
                                 (''details'', JString (message err))]\<rparr>), s')"
    using assms(3) s'(1)
    by (simp add: thumbnail_handler_def Let_def s3_def thumb_cmd_def rf_def)
  finally show ?thesis using s' fr by (simp add: rf_def)
qed

lemma post_thumbnail_succeeds:
  assumes "video req = Some f" and "accepted f"
    and "execWithTimeout (thumb_cmd e f) 30000 (run e (thumb_cmd e f)) = Inr out1"
  shows "\<exists>s'. post_thumbnail e req s =
              Inr (if thumbnailPath (diskStorage e f) \<in>
                        insert (path (diskStorage e f)) (files s)
                          \<union> written (run e (thumb_cmd e f)) \<and>
                      send_error e = None
                   then Some \<lparr>status = 200, body = SendFile (thumbnailPath (diskStorage e f))\<rparr>
                   else None, s') \<and>
           files s' = (insert (path (diskStorage e f)) (files s) \<union> written (run e (thumb_cmd e f)))
                       - ({path (diskStorage e f), thumbnailPath (diskStorage e f)} - undeletable s) \<and>
           undeletable s' = undeletable s \<and>
           launched s' = launched s @ [(thumb_cmd e f, 30000)]"
proof -
  define rf where "rf = diskStorage e f"
  define s0 where "s0 = s\<lparr>files := insert (path rf) (files s)\<rparr>"
  define s2 where "s2 = started e (thumb_cmd e f) 30000
       (logger_info ''Generating thumbnail'' [(''input'', JString (path rf))] s0)"
  have fr: "files s2 = insert (path rf) (files s) \<union> written (run e (thumb_cmd e f))"
    "undeletable s2 = undeletable s"
    "launched s2 = launched s @ [(thumb_cmd e f, 30000)]"
    by (simp_all add: s2_def s0_def started_frame logger_info_frame)
  have "post_thumbnail e req s = thumbnail_handler e (Some rf) s0"
    using assms(1,2) by (simp add: post_thumbnail_def upload_single_accepted rf_def s0_def)
  also have "\<dots> = sendFile e ''Error sending thumbnail'' (thumbnailPath rf)
                       [path rf, thumbnailPath rf] s2"
    using assms(3)
    by (simp add: thumbnail_handler_def Let_def s2_def thumb_cmd_def rf_def)
  finally have eq: "post_thumbnail e req s = sendFile e ''Error sending thumbnail''
      (thumbnailPath rf) [path rf, thumbnailPath rf] s2" .
  from sendFile_Inr [of e "''Error sending thumbnail''" "thumbnailPath rf"
      "[path rf, thumbnailPath rf]" s2]
  show ?thesis
    unfolding eq fr rf_def [symmetric] by simp
qed

lemma post_convert_rejected:
  assumes "video req = Some f" and "\<not> accepted f"
  shows "\<exists>r. \<forall>s. \<exists>s'. post_convert e req s = Inr (r, s') \<and> files s' = files s \<and>
           undeletable s' = undeletable s \<and> launched s' = launched s"
  using assms
  by (auto simp: post_convert_def upload_single_def fileFilter_def accepted_def
      error_handler_def logger_error_def MulterError_def Error_def)

lemma post_thumbnail_rejected:
  assumes "video req = Some f" and "\<not> accepted f"
  shows "\<exists>r. \<forall>s. \<exists>s'. post_thumbnail e req s = Inr (r, s') \<and> files s' = files s \<and>
           undeletable s' = undeletable s \<and> launched s' = launched s"
  using assms
  by (auto simp: post_thumbnail_def upload_single_def fileFilter_def accepted_def
      error_handler_def logger_error_def MulterError_def Error_def)

lemma post_convert_no_file:
  assumes "video req = None"
  shows "post_convert e req s =
           Inr (Some (\<lparr>status = 400, body = Json [(''error'', JString ''No video file uploaded'')]\<rparr>), s)"
  using assms by (simp add: post_convert_def upload_single_def convert_handler_def)

lemma post_thumbnail_no_file:
  assumes "video req = None"
  shows "post_thumbnail e req s =
           Inr (Some (\<lparr>status = 400, body = Json [(''error'', JString ''No video file uploaded'')]\<rparr>), s)"
  using assms by (simp add: post_thumbnail_def upload_single_def thumbnail_handler_def)

lemma post_convert_invalid_quality:
  assumes "video req = Some f" and "accepted f" and "\<not> truthy (chosen_preset req)"
  shows "post_convert e req s =
           Inr (Some (\<lparr>status = 400,
                 body = Json [(''error'', JString ''Invalid quality setting''),
                              (''allowed'', JArray (Object_keys QUALITY_PRESETS))]\<rparr>),
                s\<lparr>files := insert (path (diskStorage e f)) (files s)\<rparr>)"
  using assms
  by (simp add: post_convert_def upload_single_accepted convert_handler_def chosen_preset_def)

text \<open>
  The response of a route does not depend on the deletions that fail: it is the same for
  every set of paths that cannot be deleted.
\<close>

lemma post_convert_response:
  "\<exists>r. \<forall>U. \<exists>s'. post_convert e req (s\<lparr>undeletable := U\<rparr>) = Inr (r, s')"
proof (cases "video req")
  case None
  then show ?thesis by (simp add: post_convert_no_file)
next
  case (Some f)
  show ?thesis
  proof (cases "accepted f")
    case False
    from post_convert_rejected [OF Some False, of e] obtain r where
      "\<forall>s. \<exists>s'. post_convert e req s = Inr (r, s') \<and> files s' = files s \<and>
         undeletable s' = undeletable s \<and> launched s' = launched s" by blast
    then have "\<forall>U. \<exists>s'. post_convert e req (s\<lparr>undeletable := U\<rparr>) = Inr (r, s')"
      by blast
    then show ?thesis by (rule exI)
  next
    case True
    show ?thesis
    proof (cases "truthy (chosen_preset req)")
      case False
      with Some True show ?thesis by (simp add: post_convert_invalid_quality)
    next
      case pr: True
      show ?thesis
      proof (cases "execWithTimeout (stage1_cmd e f req) (FFMPEG_TIMEOUT div 2)
                      (run e (stage1_cmd e f req))")
        case (Inl err)
        have "\<forall>U. \<exists>s'. post_convert e req (s\<lparr>undeletable := U\<rparr>) =
                 Inr (Some (convert_error_response err), s')"
        proof
          fix U
          from post_convert_stage1_fails [OF Some True pr Inl, of "s\<lparr>undeletable := U\<rparr>"]
          show "\<exists>s'. post_convert e req (s\<lparr>undeletable := U\<rparr>) =
                 Inr (Some (convert_error_response err), s')" by blast
        qed
        then show ?thesis by (rule exI)
      next
        case (Inr out1)
        show ?thesis
        proof (cases "execWithTimeout (stage2_cmd e f req) FFMPEG_TIMEOUT
                        (run e (stage2_cmd e f req))")
          case (Inl err)
          have "\<forall>U. \<exists>s'. post_convert e req (s\<lparr>undeletable := U\<rparr>) =
                   Inr (Some (convert_error_response err), s')"
          proof
            fix U
            from post_convert_stage2_fails [OF Some True pr Inr Inl, of "s\<lparr>undeletable := U\<rparr>"]
            show "\<exists>s'. post_convert e req (s\<lparr>undeletable := U\<rparr>) =
                   Inr (Some (convert_error_response err), s')" by blast
          qed
          then show ?thesis by (rule exI)
        next
          case r2: (Inr out2)
          define r where "r =
            (if outputPath (diskStorage e f) \<in>
                  insert (path (diskStorage e f)) (files s)
                    \<union> written (run e (stage1_cmd e f req))
                    \<union> written (run e (stage2_cmd e f req)) \<and>
                send_error e = None
             then Some \<lparr>status = 200, body = SendFile (outputPath (diskStorage e f))\<rparr>
             else None)"
          have "\<forall>U. \<exists>s'. post_convert e req (s\<lparr>undeletable := U\<rparr>) = Inr (r, s')"
          proof
            fix U
            from post_convert_succeeds [OF Some True pr Inr r2, of "s\<lparr>undeletable := U\<rparr>"]
            obtain s' where "post_convert e req (s\<lparr>undeletable := U\<rparr>) = Inr (r, s')"
              unfolding r_def by auto
            then show "\<exists>s'. post_convert e req (s\<lparr>undeletable := U\<rparr>) = Inr (r, s')"
              by (rule exI)
          qed
          then show ?thesis by (rule exI)
        qed
      qed
    qed
  qed
qed

lemma post_thumbnail_response:
  "\<exists>r. \<forall>U. \<exists>s'. post_thumbnail e req (s\<lparr>undeletable := U\<rparr>) = Inr (r, s')"
proof (cases "video req")
  case None
  then show ?thesis by (simp add: post_thumbnail_no_file)
next
  case (Some f)
  show ?thesis
  proof (cases "accepted f")
    case False
    from post_thumbnail_rejected [OF Some False, of e] obtain r where
      "\<forall>s. \<exists>s'. post_thumbnail e req s = Inr (r, s') \<and> files s' = files s \<and>
         undeletable s' = undeletable s \<and> launched s' = launched s" by blast
    then have "\<forall>U. \<exists>s'. post_thumbnail e req (s\<lparr>undeletable := U\<rparr>) = Inr (r, s')"
      by blast
    then show ?thesis by (rule exI)
  next
    case True
    show ?thesis
    proof (cases "execWithTimeout (thumb_cmd e f) 30000 (run e (thumb_cmd e f))")
      case (Inl err)
      have "\<forall>U. \<exists>s'. post_thumbnail e req (s\<lparr>undeletable := U\<rparr>) =
               Inr (Some \<lparr>status = 500,
                     body = Json [(''error'', JString ''Failed to generate thumbnail''),
                                  (''details'', JString (message err))]\<rparr>, s')"
      proof
        fix U
        from post_thumbnail_fails [OF Some True Inl, of "s\<lparr>undeletable := U\<rparr>"]
        show "\<exists>s'. post_thumbnail e req (s\<lparr>undeletable := U\<rparr>) =
               Inr (Some \<lparr>status = 500,
                     body = Json [(''error'', JString ''Failed to generate thumbnail''),
                                  (''details'', JString (message err))]\<rparr>, s')" by blast
      qed
      then show ?thesis by (rule exI)
    next
      case (Inr out1)
      define r where "r =
        (if thumbnailPath (diskStorage e f) \<in>
              insert (path (diskStorage e f)) (files s) \<union> written (run e (thumb_cmd e f)) \<and>
            send_error e = None
         then Some \<lparr>status = 200, body = SendFile (thumbnailPath (diskStorage e f))\<rparr>
         else None)"
      have "\<forall>U. \<exists>s'. post_thumbnail e req (s\<lparr>undeletable := U\<rparr>) = Inr (r, s')"
      proof
        fix U
        from post_thumbnail_succeeds [OF Some True Inr, of "s\<lparr>undeletable := U\<rparr>"]
        obtain s' where "post_thumbnail e req (s\<lparr>undeletable := U\<rparr>) = Inr (r, s')"
          unfolding r_def by auto
        then show "\<exists>s'. post_thumbnail e req (s\<lparr>undeletable := U\<rparr>) = Inr (r, s')"
          by (rule exI)
      qed
      then show ?thesis by (rule exI)
    qed
  qed
qed

subsection \<open>Cleanup never fails\<close>

text \<open>
  C8. \<open>cleanupFiles\<close> is total and idempotent. On every list of paths and every state
  of the file system (so also when a path was never created, or was already deleted) it
  completes without an error; it leaves exactly the files it was not asked to delete and
  those whose deletion failed; a second call on the same paths completes as well and
  leaves the same files. Every failed deletion is logged, not raised. The outcome of
  /convert and of /thumbnail does not depend on the deletions that fail: from a given
  state of the files, the response (or the absence of one) is the same for every set of
  paths that cannot be deleted, and the handler never rejects.
\<close>

theorem cleanupFiles_total_idempotent:
  "\<exists>s1 s2.
      cleanupFiles ps s = Inr s1 \<and> cleanupFiles ps s1 = Inr s2 \<and>
      files s1 = files s - (set ps - undeletable s) \<and> files s2 = files s1 \<and>
      (\<forall>p \<in> set ps \<inter> files s \<inter> undeletable s.
          LogError ''Failed to cleanup file''
            (Error (''EPERM: operation not permitted, unlink '' @ p))
            [(''path'', JString p)] \<in> set (log s1)) \<and>
      (\<exists>r. \<forall>U. \<exists>s'. post_convert e req (s0\<lparr>undeletable := U\<rparr>) = Inr (r, s')) \<and>
      (\<exists>r. \<forall>U. \<exists>s'. post_thumbnail e req (s0\<lparr>undeletable := U\<rparr>) = Inr (r, s'))"
proof -
  from cleanupFiles_Inr [of ps s] obtain s1 where s1: "cleanupFiles ps s = Inr s1"
    "files s1 = files s - (set ps - undeletable s)" "undeletable s1 = undeletable s"
    by blast
  from cleanupFiles_Inr [of ps s1] obtain s2 where s2: "cleanupFiles ps s1 = Inr s2"
    "files s2 = files s1 - (set ps - undeletable s1)"
    by blast
  have same: "files s2 = files s1"
    using s1(2,3) s2(2) by auto
  have logged: "\<forall>p \<in> set ps \<inter> files s \<inter> undeletable s.
          LogError ''Failed to cleanup file''
            (Error (''EPERM: operation not permitted, unlink '' @ p))
            [(''path'', JString p)] \<in> set (log s1)"
    using cleanupFiles_logs_failure [OF s1(1)] by blast
  from s1(1,2) s2(1) same logged post_convert_response [of e req s0]
    post_thumbnail_response [of e req s0]
  show ?thesis by blast
qed

theorem cleanupFiles_total_idempotent_witness:
  "\<exists>s1 s2.
      cleanupFiles [''/usr/src/app/uploads/1-a.mp4'', ''/usr/src/app/uploads/1-a.gif'',
                    ''/usr/src/app/uploads/palette-2.png''] server_busy = Inr s1 \<and>
      cleanupFiles [''/usr/src/app/uploads/1-a.mp4'', ''/usr/src/app/uploads/1-a.gif'',
                    ''/usr/src/app/uploads/palette-2.png''] s1 = Inr s2 \<and>
      files s1 = {''/usr/src/app/uploads/1-a.gif''} \<and> files s2 = files s1 \<and>
      ''/usr/src/app/uploads/1-a.gif'' \<in>
         set [''/usr/src/app/uploads/1-a.mp4'', ''/usr/src/app/uploads/1-a.gif'',
              ''/usr/src/app/uploads/palette-2.png''] \<inter> files server_busy
           \<inter> undeletable server_busy \<and>
      LogError ''Failed to cleanup file''
        (Error (''EPERM: operation not permitted, unlink '' @ ''/usr/src/app/uploads/1-a.gif''))
        [(''path'', JString ''/usr/src/app/uploads/1-a.gif'')] \<in> set (log s1)"
proof -
  from cleanupFiles_total_idempotent
    [of "[''/usr/src/app/uploads/1-a.mp4'', ''/usr/src/app/uploads/1-a.gif'',
          ''/usr/src/app/uploads/palette-2.png'']" server_busy]
  obtain s1 s2 where
    h: "cleanupFiles [''/usr/src/app/uploads/1-a.mp4'', ''/usr/src/app/uploads/1-a.gif'',
                    ''/usr/src/app/uploads/palette-2.png''] server_busy = Inr s1"
      "cleanupFiles [''/usr/src/app/uploads/1-a.mp4'', ''/usr/src/app/uploads/1-a.gif'',
                    ''/usr/src/app/uploads/palette-2.png''] s1 = Inr s2"
      "files s1 = files server_busy -
         (set [''/usr/src/app/uploads/1-a.mp4'', ''/usr/src/app/uploads/1-a.gif'',
               ''/usr/src/app/uploads/palette-2.png''] - undeletable server_busy)"
      "files s2 = files s1"
      "\<forall>p \<in> set [''/usr/src/app/uploads/1-a.mp4'', ''/usr/src/app/uploads/1-a.gif'',
                    ''/usr/src/app/uploads/palette-2.png''] \<inter> files server_busy
                  \<inter> undeletable server_busy.
          LogError ''Failed to cleanup file''
            (Error (''EPERM: operation not permitted, unlink '' @ p))
            [(''path'', JString p)] \<in> set (log s1)"
    by blast
  have mem: "''/usr/src/app/uploads/1-a.gif'' \<in>
         set [''/usr/src/app/uploads/1-a.mp4'', ''/usr/src/app/uploads/1-a.gif'',
              ''/usr/src/app/uploads/palette-2.png''] \<inter> files server_busy
           \<inter> undeletable server_busy"
    by (simp add: server_busy_def)
  have fs: "files s1 = {''/usr/src/app/uploads/1-a.gif''}"
    unfolding h(3) by (auto simp: server_busy_def)
  from h(5) mem have "LogError ''Failed to cleanup file''
        (Error (''EPERM: operation not permitted, unlink '' @ ''/usr/src/app/uploads/1-a.gif''))
        [(''path'', JString ''/usr/src/app/uploads/1-a.gif'')] \<in> set (log s1)"
    by blast
  with h(1,2,4) fs mem show ?thesis by blast
qed

subsection \<open>The example request, evaluated\<close>

lemma string_of_nat_numeral [simp]:
  "string_of_nat (numeral k) =
     (if (numeral k :: nat) < 10 then [digit_char (numeral k)]
      else string_of_nat (numeral k div 10) @ [digit_char (numeral k mod 10)])"
  by (rule string_of_nat.simps)

lemma string_of_nat_0 [simp]: "string_of_nat 0 = ''0''"
  by (simp add: string_of_nat.simps digit_char_def)

lemma string_of_nat_1 [simp]: "string_of_nat (Suc 0) = ''1''"
  by (simp add: string_of_nat.simps digit_char_def)

lemma clip_accepted: "accepted clip"
  by (simp add: accepted_def clip_def ALLOWED_MIME_TYPES_def MAX_FILE_SIZE_def)

lemma clip_filename:
  "storage_filename (env_with r) clip = ''1700000000000-my_clip.mp4''"
  by (simp add: storage_filename_def env_with_def clip_def digit_char_def safe_char_def)

lemma uploadDir_eq: "uploadDir = ''/usr/src/app/uploads''"
  by (simp add: uploadDir_def path_join_def dirname_def)

lemma clip_path:
  "path (diskStorage (env_with r) clip) = ''/usr/src/app/uploads/1700000000000-my_clip.mp4''"
  by (simp add: diskStorage_def clip_filename uploadDir_eq path_join_def)

lemma clip_basename:
  "basename ''1700000000000-my_clip.mp4'' (extname ''1700000000000-my_clip.mp4'')
     = ''1700000000000-my_clip''"
  by (simp add: basename_def extname_def suffix_to_prefix)

lemma clip_outputPath:
  "outputPath (diskStorage (env_with r) clip) = ''/usr/src/app/uploads/1700000000000-my_clip.gif''"
  by (simp add: outputPath_def diskStorage_def clip_filename clip_basename uploadDir_eq path_join_def)

lemma clip_thumbnailPath:
  "thumbnailPath (diskStorage (env_with r) clip)
     = ''/usr/src/app/uploads/thumb-1700000000000-my_clip.jpg''"
  by (simp add: thumbnailPath_def diskStorage_def clip_filename clip_basename uploadDir_eq path_join_def)

lemma clip_paletteFile:
  "paletteFile (env_with r) = ''/usr/src/app/uploads/palette-1700000000250.png''"
  by (simp add: paletteFile_def env_with_def uploadDir_eq path_join_def digit_char_def)

lemma preset_low:
  "chosen_preset \<lparr>video = v, quality = Some ''low''\<rparr> = PresetObject \<lparr>fps = 10, scale = 320, colors = 128\<rparr>"
  by (simp add: chosen_preset_def or_default_def get_property_def QUALITY_PRESETS_def)

lemma clip_stage1_cmd:
  \<open>stage1_cmd (env_with r) clip \<lparr>video = Some clip, quality = Some ''low''\<rparr> =
     ''ffmpeg -i "/usr/src/app/uploads/1700000000000-my_clip.mp4" -vf "fps=10,scale=320:-1:flags=lanczos,palettegen=max_colors=128" -y "/usr/src/app/uploads/palette-1700000000250.png"''\<close>
  by (simp add: stage1_cmd_def paletteCmd_def clip_path clip_paletteFile preset_low digit_char_def)

lemma clip_stage2_cmd:
  \<open>stage2_cmd (env_with r) clip \<lparr>video = Some clip, quality = Some ''low''\<rparr> =
     ''ffmpeg -i "/usr/src/app/uploads/1700000000000-my_clip.mp4" -i "/usr/src/app/uploads/palette-1700000000250.png" -lavfi "fps=10,scale=320:-1:flags=lanczos[x];[x][1:v]paletteuse" -y "/usr/src/app/uploads/1700000000000-my_clip.gif"''\<close>
  by (simp add: stage2_cmd_def convertCmd_def clip_path clip_paletteFile clip_outputPath preset_low digit_char_def)

lemma clip_thumb_cmd:
  \<open>thumb_cmd (env_with r) clip =
     ''ffmpeg -i "/usr/src/app/uploads/1700000000000-my_clip.mp4" -ss 00:00:01 -vframes 1 -vf "scale=320:-1" "/usr/src/app/uploads/thumb-1700000000000-my_clip.jpg"''\<close>
  by (simp add: thumb_cmd_def thumbnailCmd_def clip_path clip_thumbnailPath)

subsection \<open>The two stages of a conversion\<close>

lemma str_includes_sublist: "str_includes s sub \<longleftrightarrow> sublist sub s"
  by (induction s) (simp_all add: sublist_Cons_right)

lemma FFMPEG_TIMEOUT_half: "2 * (FFMPEG_TIMEOUT div 2) = FFMPEG_TIMEOUT"
  by (simp add: FFMPEG_TIMEOUT_def)

lemma stage1_cmd_writes_palette:
  \<open>\<exists>pre. stage1_cmd e f req = pre @ ''-y "'' @ paletteFile e @ ''"''\<close>
  unfolding stage1_cmd_def paletteCmd_def
  by (rule exI [of _ \<open>''ffmpeg -i "'' @ path (diskStorage e f) @ ''" -vf "fps='' @
        show_field fps (chosen_preset req) @ '',scale='' @
        show_field scale (chosen_preset req) @
        '':-1:flags=lanczos,palettegen=max_colors='' @
        show_field colors (chosen_preset req) @ ''" ''\<close>]) simp

lemma stage2_cmd_reads_palette:
  \<open>\<exists>pre post. stage2_cmd e f req = pre @ ''-i "'' @ paletteFile e @ ''"'' @ post \<and>
       str_includes post ''paletteuse''\<close>
proof -
  define pre where \<open>pre = ''ffmpeg -i "'' @ path (diskStorage e f) @ ''" ''\<close>
  define post where \<open>post = '' -lavfi "fps='' @ show_field fps (chosen_preset req) @
      '',scale='' @ show_field scale (chosen_preset req) @
      '':-1:flags=lanczos[x];[x][1:v]'' @ ''paletteuse'' @
      ''" -y "'' @ outputPath (diskStorage e f) @ ''"''\<close>
  have \<open>stage2_cmd e f req = pre @ ''-i "'' @ paletteFile e @ ''"'' @ post\<close>
    by (simp add: stage2_cmd_def convertCmd_def pre_def post_def)
  moreover have "sublist ''paletteuse'' post"
    unfolding sublist_def
    by (rule exI [of _ \<open>'' -lavfi "fps='' @ show_field fps (chosen_preset req) @
          '',scale='' @ show_field scale (chosen_preset req) @
          '':-1:flags=lanczos[x];[x][1:v]''\<close>],
        rule exI [of _ \<open>''" -y "'' @ outputPath (diskStorage e f) @ ''"''\<close>])
      (simp add: post_def)
  ultimately show ?thesis
    by (auto simp: str_includes_sublist)
qed

lemma execWithTimeout_resolves:
  "(\<exists>out. execWithTimeout c t r = Inr out) \<longleftrightarrow>
     settle r \<le> t \<and> exit_code r = 0 \<and>
     length (stdout r) \<le> maxBuffer \<and> length (stderr r) \<le> maxBuffer"
  by (auto simp: execWithTimeout_def execAsync_def)

lemma execWithTimeout_late:
  "t < settle r \<Longrightarrow> execWithTimeout c t r = Inl (Error ''FFmpeg execution timeout'')"
  by (simp add: execWithTimeout_def)

lemma timeout_error_status:
  "status (convert_error_response (Error ''FFmpeg execution timeout'')) = 408"
  by (simp add: convert_error_response_def Error_def)

lemma FFMPEG_TIMEOUT_values: "FFMPEG_TIMEOUT div 2 = 60000" "FFMPEG_TIMEOUT = 120000"
  by (simp_all add: FFMPEG_TIMEOUT_def)

text \<open>
  C9. Within every /convert request the palette stage comes before the encoding stage.
  A request that has no file, whose upload is rejected or whose preset is unknown starts
  no command. Every other request starts the palette command first, raced against a
  timer of 60000 ms, half of \<open>FFMPEG_TIMEOUT\<close>. The encoding command is started after
  it, raced against a timer of 120000 ms, exactly when the palette process ended within
  its 60000 ms with exit code 0 and outputs inside the buffer; a palette run that takes
  longer or exits with an error starts no encoding command. A palette run that exceeds
  its 60000 ms, and an encoding run that exceeds its 120000 ms, are answered with 408.
  The palette command writes the palette file (its \<^verbatim>\<open>-y\<close> output) and the encoding
  command reads that file as an input (\<^verbatim>\<open>-i\<close>) of its \<^verbatim>\<open>paletteuse\<close> filter.
\<close>

theorem convert_stages_in_order:
  \<open>\<exists>r s'. post_convert e req s = Inr (r, s') \<and>
     (case video req of
        None \<Rightarrow> launched s' = launched s
      | Some f \<Rightarrow>
          if accepted f \<and> truthy (chosen_preset req)
          then launched s' =
                 launched s @ (stage1_cmd e f req, 60000) #
                   (if settle (run e (stage1_cmd e f req)) \<le> 60000 \<and>
                       exit_code (run e (stage1_cmd e f req)) = 0 \<and>
                       length (stdout (run e (stage1_cmd e f req))) \<le> maxBuffer \<and>
                       length (stderr (run e (stage1_cmd e f req))) \<le> maxBuffer
                    then [(stage2_cmd e f req, 120000)]
                    else []) \<and>
               (60000 < settle (run e (stage1_cmd e f req)) \<longrightarrow>
                  map_option status r = Some 408) \<and>
               (settle (run e (stage1_cmd e f req)) \<le> 60000 \<and>
                exit_code (run e (stage1_cmd e f req)) = 0 \<and>
                length (stdout (run e (stage1_cmd e f req))) \<le> maxBuffer \<and>
                length (stderr (run e (stage1_cmd e f req))) \<le> maxBuffer \<and>
                120000 < settle (run e (stage2_cmd e f req)) \<longrightarrow>
                  map_option status r = Some 408) \<and>
               (\<exists>pre. stage1_cmd e f req = pre @ ''-y "'' @ paletteFile e @ ''"'') \<and>
               (\<exists>pre post. stage2_cmd e f req = pre @ ''-i "'' @ paletteFile e @ ''"'' @ post \<and>
                    str_includes post ''paletteuse'')
          else launched s' = launched s)\<close>
proof (cases "video req")
  case None
  then show ?thesis
    by (simp add: post_convert_no_file)
next
  case (Some f)
  show ?thesis
  proof (cases "accepted f \<and> truthy (chosen_preset req)")
    case False
    have "\<exists>r s'. post_convert e req s = Inr (r, s') \<and> launched s' = launched s"
    proof (cases "accepted f")
      case nacc: False
      from post_convert_rejected [OF Some nacc, of e] obtain r where
        "\<forall>s. \<exists>s'. post_convert e req s = Inr (r, s') \<and> files s' = files s \<and>
           undeletable s' = undeletable s \<and> launched s' = launched s" by blast
      then have "\<exists>s'. post_convert e req s = Inr (r, s') \<and> launched s' = launched s"
        by blast
      then show ?thesis by blast
    next
      case acc: True
      with False have "\<not> truthy (chosen_preset req)" by simp
      from post_convert_invalid_quality [OF Some acc this, of e s] show ?thesis
        by simp
    qed
    then obtain r s' where "post_convert e req s = Inr (r, s')" "launched s' = launched s"
      by blast
    with Some False show ?thesis by simp
  next
    case True
    then have acc: "accepted f" and pr: "truthy (chosen_preset req)" by simp_all
    define r1 where "r1 = run e (stage1_cmd e f req)"
    define r2 where "r2 = run e (stage2_cmd e f req)"
    define ok1 where "ok1 \<longleftrightarrow> settle r1 \<le> 60000 \<and> exit_code r1 = 0 \<and>
      length (stdout r1) \<le> maxBuffer \<and> length (stderr r1) \<le> maxBuffer"
    have "\<exists>r s'. post_convert e req s = Inr (r, s') \<and>
            launched s' = launched s @ (stage1_cmd e f req, 60000) #
               (if ok1 then [(stage2_cmd e f req, 120000)] else []) \<and>
            (60000 < settle r1 \<longrightarrow> map_option status r = Some 408) \<and>
            (ok1 \<and> 120000 < settle r2 \<longrightarrow> map_option status r = Some 408)"
    proof (cases "execWithTimeout (stage1_cmd e f req) (FFMPEG_TIMEOUT div 2) r1")
      case (Inl err)
      then have nok: "\<not> ok1"
        using execWithTimeout_resolves [of "stage1_cmd e f req" 60000 r1]
        by (simp add: ok1_def FFMPEG_TIMEOUT_values)
      have late: "60000 < settle r1 \<Longrightarrow> err = Error ''FFmpeg execution timeout''"
        using Inl execWithTimeout_late [of 60000 r1 "stage1_cmd e f req"]
        by (simp add: FFMPEG_TIMEOUT_values)
      from post_convert_stage1_fails [OF Some acc pr Inl [unfolded r1_def], of s] obtain s' where
        "post_convert e req s = Inr (Some (convert_error_response err), s')"
        "launched s' = launched s @ [(stage1_cmd e f req, FFMPEG_TIMEOUT div 2)]" by blast
      with nok late show ?thesis
        by (auto simp: FFMPEG_TIMEOUT_values timeout_error_status)
    next
      case (Inr out1)
      then have ok: "ok1"
        using execWithTimeout_resolves [of "stage1_cmd e f req" 60000 r1]
        by (auto simp: ok1_def FFMPEG_TIMEOUT_values)
      then have nlate: "\<not> 60000 < settle r1" by (simp add: ok1_def)
      have "\<exists>r s'. post_convert e req s = Inr (r, s') \<and>
              launched s' = launched s @ [(stage1_cmd e f req, FFMPEG_TIMEOUT div 2),
                                          (stage2_cmd e f req, FFMPEG_TIMEOUT)] \<and>
              (120000 < settle r2 \<longrightarrow> map_option status r = Some 408)"
      proof (cases "execWithTimeout (stage2_cmd e f req) FFMPEG_TIMEOUT r2")
        case (Inl err)
        have late: "120000 < settle r2 \<Longrightarrow> err = Error ''FFmpeg execution timeout''"
          using Inl execWithTimeout_late [of 120000 r2 "stage2_cmd e f req"]
          by (simp add: FFMPEG_TIMEOUT_values)
        from post_convert_stage2_fails
          [OF Some acc pr Inr [unfolded r1_def] Inl [unfolded r2_def], of s]
        obtain s' where
          "post_convert e req s = Inr (Some (convert_error_response err), s')"
          "launched s' = launched s @ [(stage1_cmd e f req, FFMPEG_TIMEOUT div 2),
                                       (stage2_cmd e f req, FFMPEG_TIMEOUT)]" by blast
        with late show ?thesis
          by (auto simp: timeout_error_status)
      next
        case res2: (Inr out2)
        then have nl: "\<not> 120000 < settle r2"
          using execWithTimeout_resolves [of "stage2_cmd e f req" 120000 r2]
          by (auto simp: FFMPEG_TIMEOUT_values)
        from post_convert_succeeds
          [OF Some acc pr Inr [unfolded r1_def] res2 [unfolded r2_def], of s]
        obtain r s' where
          "post_convert e req s = Inr (r, s')"
          "launched s' = launched s @ [(stage1_cmd e f req, FFMPEG_TIMEOUT div 2),
                                       (stage2_cmd e f req, FFMPEG_TIMEOUT)]" by blast
        with nl show ?thesis by blast
      qed
      with ok nlate show ?thesis
        by (auto simp: FFMPEG_TIMEOUT_values)
    qed
    then obtain r s' where out: "post_convert e req s = Inr (r, s')"
      and tr: "launched s' = launched s @ (stage1_cmd e f req, 60000) #
               (if ok1 then [(stage2_cmd e f req, 120000)] else [])"
      and b1: "60000 < settle r1 \<longrightarrow> map_option status r = Some 408"
      and b2: "ok1 \<and> 120000 < settle r2 \<longrightarrow> map_option status r = Some 408"
      by blast
    show ?thesis
      unfolding out Some option.case
      using True tr b1 b2 stage1_cmd_writes_palette [of e f req]
        stage2_cmd_reads_palette [of e f req]
      unfolding ok1_def r1_def r2_def
      by (intro exI [of _ r] exI [of _ s'] conjI) simp_all
  qed
qed


lemma run_env_with: "run (env_with r) = r"
  by (simp add: env_with_def)

lemma converts_run1:
  "run env_converts
     (stage1_cmd env_converts clip \<lparr>video = Some clip, quality = Some ''low''\<rparr>)
   = run_palette"
  unfolding env_converts_def run_env_with clip_stage1_cmd by simp

lemma converts_run2:
  "run env_converts
     (stage2_cmd env_converts clip \<lparr>video = Some clip, quality = Some ''low''\<rparr>)
   = run_encode"
  unfolding env_converts_def run_env_with clip_stage2_cmd by simp

text \<open>
  Three conversions of the example upload: one in which both stages succeed, one in
  which every command takes 130 seconds, and one in which every command exits with
  code 1. The last two start the palette command only.
\<close>

theorem convert_stages_in_order_witness:
  \<open>accepted clip \<and> truthy (chosen_preset \<lparr>video = Some clip, quality = Some ''low''\<rparr>) \<and>
   (\<exists>r s'. post_convert env_converts \<lparr>video = Some clip, quality = Some ''low''\<rparr> server0
              = Inr (r, s') \<and>
      launched s' =
        [(''ffmpeg -i "/usr/src/app/uploads/1700000000000-my_clip.mp4" -vf "fps=10,scale=320:-1:flags=lanczos,palettegen=max_colors=128" -y "/usr/src/app/uploads/palette-1700000000250.png"'',
          60000),
         (''ffmpeg -i "/usr/src/app/uploads/1700000000000-my_clip.mp4" -i "/usr/src/app/uploads/palette-1700000000250.png" -lavfi "fps=10,scale=320:-1:flags=lanczos[x];[x][1:v]paletteuse" -y "/usr/src/app/uploads/1700000000000-my_clip.gif"'',
          120000)]) \<and>
   60000 < settle (run env_slow
     (stage1_cmd env_slow clip \<lparr>video = Some clip, quality = Some ''low''\<rparr>)) \<and>
   (\<exists>r s'. post_convert env_slow \<lparr>video = Some clip, quality = Some ''low''\<rparr> server0
              = Inr (r, s') \<and>
      map_option status r = Some 408 \<and>
      launched s' =
        [(''ffmpeg -i "/usr/src/app/uploads/1700000000000-my_clip.mp4" -vf "fps=10,scale=320:-1:flags=lanczos,palettegen=max_colors=128" -y "/usr/src/app/uploads/palette-1700000000250.png"'',
          60000)]) \<and>
   exit_code (run env_broken
     (stage1_cmd env_broken clip \<lparr>video = Some clip, quality = Some ''low''\<rparr>)) = 1 \<and>
   (\<exists>r s'. post_convert env_broken \<lparr>video = Some clip, quality = Some ''low''\<rparr> server0
              = Inr (r, s') \<and>
      launched s' =
        [(''ffmpeg -i "/usr/src/app/uploads/1700000000000-my_clip.mp4" -vf "fps=10,scale=320:-1:flags=lanczos,palettegen=max_colors=128" -y "/usr/src/app/uploads/palette-1700000000250.png"'',
          60000)])\<close>
proof -
  have pr: "truthy (chosen_preset \<lparr>video = Some clip, quality = Some ''low''\<rparr>)"
    by (simp add: preset_low)
  have slow: "60000 < settle (run env_slow
       (stage1_cmd env_slow clip \<lparr>video = Some clip, quality = Some ''low''\<rparr>))"
    by (simp add: env_slow_def run_env_with run_slow_def)
  have broken: "exit_code (run env_broken
       (stage1_cmd env_broken clip \<lparr>video = Some clip, quality = Some ''low''\<rparr>)) = 1"
    by (simp add: env_broken_def run_env_with run_broken_def)
  from convert_stages_in_order
    [of env_converts "\<lparr>video = Some clip, quality = Some ''low''\<rparr>" server0]
  obtain r s' where
    "post_convert env_converts \<lparr>video = Some clip, quality = Some ''low''\<rparr> server0 = Inr (r, s')"
    "launched s' =
       launched server0 @
         (stage1_cmd env_converts clip \<lparr>video = Some clip, quality = Some ''low''\<rparr>, 60000) #
         (if settle run_palette \<le> 60000 \<and> exit_code run_palette = 0 \<and>
             length (stdout run_palette) \<le> maxBuffer \<and>
             length (stderr run_palette) \<le> maxBuffer
          then [(stage2_cmd env_converts clip \<lparr>video = Some clip, quality = Some ''low''\<rparr>, 120000)]
          else [])"
    using pr clip_accepted by (auto simp: converts_run1)
  then have a: \<open>\<exists>r s'. post_convert env_converts \<lparr>video = Some clip, quality = Some ''low''\<rparr> server0
              = Inr (r, s') \<and>
      launched s' =
        [(''ffmpeg -i "/usr/src/app/uploads/1700000000000-my_clip.mp4" -vf "fps=10,scale=320:-1:flags=lanczos,palettegen=max_colors=128" -y "/usr/src/app/uploads/palette-1700000000250.png"'',
          60000),
         (''ffmpeg -i "/usr/src/app/uploads/1700000000000-my_clip.mp4" -i "/usr/src/app/uploads/palette-1700000000250.png" -lavfi "fps=10,scale=320:-1:flags=lanczos[x];[x][1:v]paletteuse" -y "/usr/src/app/uploads/1700000000000-my_clip.gif"'',
          120000)]\<close>
    unfolding env_converts_def clip_stage1_cmd clip_stage2_cmd
    by (simp add: server0_def run_palette_def maxBuffer_def)
  from convert_stages_in_order
    [of env_slow "\<lparr>video = Some clip, quality = Some ''low''\<rparr>" server0]
  obtain r s' where
    "post_convert env_slow \<lparr>video = Some clip, quality = Some ''low''\<rparr> server0 = Inr (r, s')"
    "map_option status r = Some 408"
    "launched s' =
       launched server0 @
         (stage1_cmd env_slow clip \<lparr>video = Some clip, quality = Some ''low''\<rparr>, 60000) #
         (if settle run_slow \<le> 60000 \<and> exit_code run_slow = 0 \<and>
             length (stdout run_slow) \<le> maxBuffer \<and>
             length (stderr run_slow) \<le> maxBuffer
          then [(stage2_cmd env_slow clip \<lparr>video = Some clip, quality = Some ''low''\<rparr>, 120000)]
          else [])"
    using pr clip_accepted slow by (auto simp: env_slow_def run_env_with)
  then have b: \<open>\<exists>r s'. post_convert env_slow \<lparr>video = Some clip, quality = Some ''low''\<rparr> server0
              = Inr (r, s') \<and>
      map_option status r = Some 408 \<and>
      launched s' =
        [(''ffmpeg -i "/usr/src/app/uploads/1700000000000-my_clip.mp4" -vf "fps=10,scale=320:-1:flags=lanczos,palettegen=max_colors=128" -y "/usr/src/app/uploads/palette-1700000000250.png"'',
          60000)]\<close>
    unfolding env_slow_def clip_stage1_cmd
    by (simp add: server0_def run_slow_def)
  from convert_stages_in_order
    [of env_broken "\<lparr>video = Some clip, quality = Some ''low''\<rparr>" server0]
  obtain r s' where
    "post_convert env_broken \<lparr>video = Some clip, quality = Some ''low''\<rparr> server0 = Inr (r, s')"
    "launched s' =
       launched server0 @
         (stage1_cmd env_broken clip \<lparr>video = Some clip, quality = Some ''low''\<rparr>, 60000) #
         (if settle run_broken \<le> 60000 \<and> exit_code run_broken = 0 \<and>
             length (stdout run_broken) \<le> maxBuffer \<and>
             length (stderr run_broken) \<le> maxBuffer
          then [(stage2_cmd env_broken clip \<lparr>video = Some clip, quality = Some ''low''\<rparr>, 120000)]
          else [])"
    using pr clip_accepted by (auto simp: env_broken_def run_env_with)
  then have c: \<open>\<exists>r s'. post_convert env_broken \<lparr>video = Some clip, quality = Some ''low''\<rparr> server0
              = Inr (r, s') \<and>
      launched s' =
        [(''ffmpeg -i "/usr/src/app/uploads/1700000000000-my_clip.mp4" -vf "fps=10,scale=320:-1:flags=lanczos,palettegen=max_colors=128" -y "/usr/src/app/uploads/palette-1700000000250.png"'',
          60000)]\<close>
    unfolding env_broken_def clip_stage1_cmd
    by (simp add: server0_def run_broken_def)
  from clip_accepted pr a slow b broken c show ?thesis by blast
qed

subsection \<open>Artifacts left behind by a failed conversion\<close>

lemma stage2_fails_run1:
  "run env_stage2_fails
     (stage1_cmd env_stage2_fails clip \<lparr>video = Some clip, quality = Some ''low''\<rparr>)
   = run_palette"
  unfolding env_stage2_fails_def run_env_with clip_stage1_cmd by simp

lemma stage2_fails_run2:
  "run env_stage2_fails
     (stage2_cmd env_stage2_fails clip \<lparr>video = Some clip, quality = Some ''low''\<rparr>)
   = run_encode_fails"
  unfolding env_stage2_fails_def run_env_with clip_stage2_cmd by simp

lemma stage2_fails_exec1:
  "execWithTimeout
     (stage1_cmd env_stage2_fails clip \<lparr>video = Some clip, quality = Some ''low''\<rparr>)
     (FFMPEG_TIMEOUT div 2)
     (run env_stage2_fails
        (stage1_cmd env_stage2_fails clip \<lparr>video = Some clip, quality = Some ''low''\<rparr>))
   = Inr ([], [])"
  unfolding stage2_fails_run1
  by (simp add: execWithTimeout_def execAsync_def run_palette_def FFMPEG_TIMEOUT_def maxBuffer_def)

lemma stage2_fails_exec2:
  "execWithTimeout
     (stage2_cmd env_stage2_fails clip \<lparr>video = Some clip, quality = Some ''low''\<rparr>)
     FFMPEG_TIMEOUT
     (run env_stage2_fails
        (stage2_cmd env_stage2_fails clip \<lparr>video = Some clip, quality = Some ''low''\<rparr>))
   = Inl (Error (''Command failed: '' @
            stage2_cmd env_stage2_fails clip \<lparr>video = Some clip, quality = Some ''low''\<rparr> @
            [CHR 0x0A] @ ''Conversion failed!''))"
  unfolding stage2_fails_run2
  by (simp add: execWithTimeout_def execAsync_def run_encode_fails_def FFMPEG_TIMEOUT_def
      maxBuffer_def)

lemma stage2_fails_response:
  "status (convert_error_response (Error (''Command failed: '' @
            stage2_cmd env_stage2_fails clip \<lparr>video = Some clip, quality = Some ''low''\<rparr> @
            [CHR 0x0A] @ ''Conversion failed!''))) = 500"
  unfolding env_stage2_fails_def clip_stage2_cmd
  by (simp add: convert_error_response_def Error_def)

text \<open>
  C1 (artifacts of a failed /convert request). Not every artifact is released. A
  request whose palette stage succeeds and whose encoding stage fails is answered with
  500, and its palette file is still in the upload directory afterwards: the \<^verbatim>\<open>catch\<close>
  block cleans up the input and the output only, while the success path also cleans up
  the palette.
\<close>

theorem convert_failure_leaves_palette:
  "response_status
     (post_convert env_stage2_fails \<lparr>video = Some clip, quality = Some ''low''\<rparr> server0)
     = Some 500 \<and>
   final_files
     (post_convert env_stage2_fails \<lparr>video = Some clip, quality = Some ''low''\<rparr> server0)
     = {''/usr/src/app/uploads/palette-1700000000250.png''}"
proof -
  have pr: "truthy (chosen_preset \<lparr>video = Some clip, quality = Some ''low''\<rparr>)"
    by (simp add: preset_low)
  from post_convert_stage2_fails
    [of "\<lparr>video = Some clip, quality = Some ''low''\<rparr>" clip env_stage2_fails,
     OF _ clip_accepted pr stage2_fails_exec1 stage2_fails_exec2, of server0]
  obtain s' where out:
    "post_convert env_stage2_fails \<lparr>video = Some clip, quality = Some ''low''\<rparr> server0 =
       Inr (Some (convert_error_response (Error (''Command failed: '' @
            stage2_cmd env_stage2_fails clip \<lparr>video = Some clip, quality = Some ''low''\<rparr> @
            [CHR 0x0A] @ ''Conversion failed!''))), s')"
    and fs: "files s' =
       (insert (path (diskStorage env_stage2_fails clip)) (files server0)
          \<union> written (run env_stage2_fails
               (stage1_cmd env_stage2_fails clip \<lparr>video = Some clip, quality = Some ''low''\<rparr>))
          \<union> written (run env_stage2_fails
               (stage2_cmd env_stage2_fails clip \<lparr>video = Some clip, quality = Some ''low''\<rparr>)))
        - ({path (diskStorage env_stage2_fails clip), outputPath (diskStorage env_stage2_fails clip)}
             - undeletable server0)"
    by auto
  have "files s' = {''/usr/src/app/uploads/palette-1700000000250.png''}"
    unfolding fs stage2_fails_run1 stage2_fails_run2
    unfolding env_stage2_fails_def clip_path clip_outputPath
    by (auto simp: server0_def run_palette_def run_encode_fails_def)
  with out stage2_fails_response show ?thesis
    by (simp add: response_status_def final_files_def)
qed

subsection \<open>Uploads of a type that is not allowed\<close>

lemma join_allowed:
  "join_with '', '' ALLOWED_MIME_TYPES =
     ''video/mp4, video/quicktime, video/x-msvideo, video/x-matroska, video/webm, video/mpeg''"
  by (simp add: ALLOWED_MIME_TYPES_def)

lemma upload_single_disallowed:
  "video req = Some f \<Longrightarrow> mimetype f \<notin> set ALLOWED_MIME_TYPES \<Longrightarrow>
     upload_single e req s =
       Inl (Error (''Invalid file type. Allowed types: '' @ join_with '', '' ALLOWED_MIME_TYPES))"
  by (simp add: upload_single_def fileFilter_def)

lemma error_handler_plain:
  "error_handler (Error msg) s =
     (\<lparr>status = 500,
       body = Json [(''error'', JString ''Internal server error''), (''details'', JString msg)]\<rparr>,
      logger_error ''Unexpected error'' (Error msg) [] s)"
  by (simp add: error_handler_def Error_def)

lemma png_not_allowed: "''image/png'' \<notin> set ALLOWED_MIME_TYPES"
  by (simp add: ALLOWED_MIME_TYPES_def)

text \<open>
  C2 (uploads of a type outside the allow-list). Such an upload starts no external
  command, but it is not answered with a 400-class status: the error of the file filter
  is a plain error, not a \<^verbatim>\<open>MulterError\<close>, so the error handler takes its last branch and
  answers 500, Internal server error. Shown for the type \<^verbatim>\<open>image/png\<close>, on both routes,
  for every file name, size, quality, environment and state.
\<close>

theorem disallowed_type_answered_500:
  "response_status
     (post_convert e \<lparr>video = Some \<lparr>originalname = n, mimetype = ''image/png'', filesize = k\<rparr>,
                      quality = q\<rparr> s) = Some 500 \<and>
   response_body
     (post_convert e \<lparr>video = Some \<lparr>originalname = n, mimetype = ''image/png'', filesize = k\<rparr>,
                      quality = q\<rparr> s) =
     Some (Json [(''error'', JString ''Internal server error''),
                 (''details'', JString
                    ''Invalid file type. Allowed types: video/mp4, video/quicktime, video/x-msvideo, video/x-matroska, video/webm, video/mpeg'')]) \<and>
   final_launched
     (post_convert e \<lparr>video = Some \<lparr>originalname = n, mimetype = ''image/png'', filesize = k\<rparr>,
                      quality = q\<rparr> s) = launched s \<and>
   response_status
     (post_thumbnail e \<lparr>video = Some \<lparr>originalname = n, mimetype = ''image/png'', filesize = k\<rparr>,
                        quality = q\<rparr> s) = Some 500 \<and>
   final_launched
     (post_thumbnail e \<lparr>video = Some \<lparr>originalname = n, mimetype = ''image/png'', filesize = k\<rparr>,
                        quality = q\<rparr> s) = launched s"
  by (simp add: post_convert_def post_thumbnail_def upload_single_disallowed png_not_allowed
      error_handler_plain join_allowed response_status_def response_body_def
      final_launched_def logger_error_frame)

subsection \<open>Timeouts and other failures of the external process\<close>

lemma timed_out_error:
  "timed_out e c t \<Longrightarrow> execWithTimeout c t (run e c) = Inl (Error ''FFmpeg execution timeout'')"
  by (simp add: timed_out_def execWithTimeout_def)

lemma timeout_message: "str_includes (message (Error ''FFmpeg execution timeout'')) ''timeout''"
  by (simp add: Error_def)

lemma post_convert_caught:
  assumes "video req = Some f" and "accepted f" and "truthy (chosen_preset req)"
    and "convert_error e f req = Some err"
  shows "\<exists>s'. post_convert e req s = Inr (Some (convert_error_response err), s')"
proof (cases "execWithTimeout (stage1_cmd e f req) (FFMPEG_TIMEOUT div 2)
                (run e (stage1_cmd e f req))")
  case (Inl err1)
  with assms(4) have "err1 = err"
    by (simp add: convert_error_def stage_error_def)
  with post_convert_stage1_fails [OF assms(1-3) Inl, of s] show ?thesis by blast
next
  case (Inr out1)
  with assms(4) obtain "execWithTimeout (stage2_cmd e f req) FFMPEG_TIMEOUT
      (run e (stage2_cmd e f req)) = Inl err"
    by (auto simp: convert_error_def stage_error_def split: sum.splits)
  from post_convert_stage2_fails [OF assms(1-3) Inr this, of s] show ?thesis by blast
qed

lemma convert_timeout_caught:
  assumes "timed_out e (stage1_cmd e f req) (FFMPEG_TIMEOUT div 2) \<or>
           stage_error e (stage1_cmd e f req) (FFMPEG_TIMEOUT div 2) = None \<and>
           timed_out e (stage2_cmd e f req) FFMPEG_TIMEOUT"
  shows "convert_error e f req = Some (Error ''FFmpeg execution timeout'')"
  using assms
  by (auto simp: convert_error_def stage_error_def timed_out_error)

text \<open>
  C3 (amended). On /convert, a stage that exceeds its timeout is answered with 408,
  Conversion timeout: the palette stage after half of \<open>FFMPEG_TIMEOUT\<close>, or the encoding
  stage after the whole of it once the palette stage succeeded. A failure of a stage
  whose message does not contain the word timeout is answered with 500 and that message.
  On /thumbnail there is no 408: an extraction that exceeds its 30 seconds is answered
  with 500 like every other failure, with the message of the timeout error as details.
\<close>

theorem timeout_responses:
  "video req = Some f \<Longrightarrow> accepted f \<Longrightarrow>
   (truthy (chosen_preset req) \<and>
    (timed_out e (stage1_cmd e f req) (FFMPEG_TIMEOUT div 2) \<or>
     stage_error e (stage1_cmd e f req) (FFMPEG_TIMEOUT div 2) = None \<and>
     timed_out e (stage2_cmd e f req) FFMPEG_TIMEOUT) \<longrightarrow>
      response_status (post_convert e req s) = Some 408 \<and>
      response_body (post_convert e req s) =
        Some (Json [(''error'', JString ''Conversion timeout''),
                    (''details'', JString
                       ''Video processing took too long. Try a shorter video or lower quality.'')])) \<and>
   (truthy (chosen_preset req) \<and> convert_error e f req = Some err \<and>
    \<not> str_includes (message err) ''timeout'' \<longrightarrow>
      response_status (post_convert e req s) = Some 500 \<and>
      response_body (post_convert e req s) =
        Some (Json [(''error'', JString ''Video conversion failed''),
                    (''details'', JString (message err))])) \<and>
   (timed_out e (thumb_cmd e f) 30000 \<longrightarrow>
      response_status (post_thumbnail e req s) = Some 500 \<and>
      response_body (post_thumbnail e req s) =
        Some (Json [(''error'', JString ''Failed to generate thumbnail''),
                    (''details'', JString ''FFmpeg execution timeout'')]))"
proof (intro conjI impI)
  assume up: "video req = Some f" "accepted f"
  {
    assume h: "truthy (chosen_preset req) \<and>
      (timed_out e (stage1_cmd e f req) (FFMPEG_TIMEOUT div 2) \<or>
       stage_error e (stage1_cmd e f req) (FFMPEG_TIMEOUT div 2) = None \<and>
       timed_out e (stage2_cmd e f req) FFMPEG_TIMEOUT)"
    then have "convert_error e f req = Some (Error ''FFmpeg execution timeout'')"
      by (intro convert_timeout_caught) simp
    from post_convert_caught [OF up _ this, of s] h obtain s' where
      out: "post_convert e req s =
         Inr (Some (convert_error_response (Error ''FFmpeg execution timeout'')), s')" by blast
    show "response_status (post_convert e req s) = Some 408"
      unfolding out by (simp add: response_status_def convert_error_response_def Error_def)
    show "response_body (post_convert e req s) =
        Some (Json [(''error'', JString ''Conversion timeout''),
                    (''details'', JString
                       ''Video processing took too long. Try a shorter video or lower quality.'')])"
      unfolding out by (simp add: response_body_def convert_error_response_def Error_def)
  }
  {
    assume h: "truthy (chosen_preset req) \<and> convert_error e f req = Some err \<and>
      \<not> str_includes (message err) ''timeout''"
    from post_convert_caught [OF up, of e err s] h obtain s' where
      out: "post_convert e req s = Inr (Some (convert_error_response err), s')" by blast
    show "response_status (post_convert e req s) = Some 500"
      unfolding out using h by (simp add: response_status_def convert_error_response_def)
    show "response_body (post_convert e req s) =
        Some (Json [(''error'', JString ''Video conversion failed''),
                    (''details'', JString (message err))])"
      unfolding out using h by (simp add: response_body_def convert_error_response_def)
  }
  {
    assume "timed_out e (thumb_cmd e f) 30000"
    from post_thumbnail_fails [OF up timed_out_error [OF this], of s] obtain s' where
      out: "post_thumbnail e req s =
         Inr (Some (\<lparr>status = 500,
               body = Json [(''error'', JString ''Failed to generate thumbnail''),
                            (''details'', JString (message (Error ''FFmpeg execution timeout'')))]\<rparr>),
              s')" by blast
    show "response_status (post_thumbnail e req s) = Some 500"
      unfolding out by (simp add: response_status_def)
    show "response_body (post_thumbnail e req s) =
        Some (Json [(''error'', JString ''Failed to generate thumbnail''),
                    (''details'', JString ''FFmpeg execution timeout'')])"
      unfolding out by (simp add: response_body_def Error_def)
  }
qed

lemma slow_run: "timed_out env_slow c t \<longleftrightarrow> t < 130000"
  by (simp add: timed_out_def env_slow_def run_env_with run_slow_def)

theorem timeout_responses_witness:
  "video \<lparr>video = Some clip, quality = Some ''low''\<rparr> = Some clip \<and> accepted clip \<and>
   truthy (chosen_preset \<lparr>video = Some clip, quality = Some ''low''\<rparr>) \<and>
   timed_out env_slow
     (stage1_cmd env_slow clip \<lparr>video = Some clip, quality = Some ''low''\<rparr>)
     (FFMPEG_TIMEOUT div 2) \<and>
   response_status (post_convert env_slow \<lparr>video = Some clip, quality = Some ''low''\<rparr> server0)
     = Some 408 \<and>
   timed_out env_slow (thumb_cmd env_slow clip) 30000 \<and>
   response_status (post_thumbnail env_slow \<lparr>video = Some clip, quality = Some ''low''\<rparr> server0)
     = Some 500 \<and>
   convert_error env_stage2_fails clip \<lparr>video = Some clip, quality = Some ''low''\<rparr> =
     Some (Error (''Command failed: '' @
            stage2_cmd env_stage2_fails clip \<lparr>video = Some clip, quality = Some ''low''\<rparr> @
            [CHR 0x0A] @ ''Conversion failed!'')) \<and>
   \<not> str_includes (message (Error (''Command failed: '' @
            stage2_cmd env_stage2_fails clip \<lparr>video = Some clip, quality = Some ''low''\<rparr> @
            [CHR 0x0A] @ ''Conversion failed!''))) ''timeout'' \<and>
   response_status
     (post_convert env_stage2_fails \<lparr>video = Some clip, quality = Some ''low''\<rparr> server0)
     = Some 500"
proof -
  have pr: "truthy (chosen_preset \<lparr>video = Some clip, quality = Some ''low''\<rparr>)"
    by (simp add: preset_low)
  have t1: "timed_out env_slow
     (stage1_cmd env_slow clip \<lparr>video = Some clip, quality = Some ''low''\<rparr>)
     (FFMPEG_TIMEOUT div 2)"
    by (simp add: slow_run FFMPEG_TIMEOUT_def)
  have t2: "timed_out env_slow (thumb_cmd env_slow clip) 30000"
    by (simp add: slow_run)
  have ce: "convert_error env_stage2_fails clip \<lparr>video = Some clip, quality = Some ''low''\<rparr> =
     Some (Error (''Command failed: '' @
            stage2_cmd env_stage2_fails clip \<lparr>video = Some clip, quality = Some ''low''\<rparr> @
            [CHR 0x0A] @ ''Conversion failed!''))"
    by (simp add: convert_error_def stage_error_def stage2_fails_exec1 stage2_fails_exec2)
  have nt: "\<not> str_includes (message (Error (''Command failed: '' @
            stage2_cmd env_stage2_fails clip \<lparr>video = Some clip, quality = Some ''low''\<rparr> @
            [CHR 0x0A] @ ''Conversion failed!''))) ''timeout''"
    unfolding env_stage2_fails_def clip_stage2_cmd by (simp add: Error_def)
  from timeout_responses
    [of "\<lparr>video = Some clip, quality = Some ''low''\<rparr>" clip env_slow server0]
    clip_accepted pr t1 t2
  have a: "response_status (post_convert env_slow \<lparr>video = Some clip, quality = Some ''low''\<rparr> server0)
     = Some 408"
    and b: "response_status (post_thumbnail env_slow \<lparr>video = Some clip, quality = Some ''low''\<rparr> server0)
     = Some 500"
    by simp_all
  from timeout_responses
    [of "\<lparr>video = Some clip, quality = Some ''low''\<rparr>" clip env_stage2_fails server0]
    clip_accepted pr ce nt
  have c: "response_status
     (post_convert env_stage2_fails \<lparr>video = Some clip, quality = Some ''low''\<rparr> server0)
     = Some 500"
    by simp
  from clip_accepted pr t1 t2 ce nt a b c show ?thesis by simp
qed

text \<open>
  As first stated, with 408 on both routes, the property fails: a thumbnail extraction
  that takes 130 seconds is answered with 500.
\<close>

theorem thumbnail_timeout_counterexample:
  "timed_out env_slow (thumb_cmd env_slow clip) 30000 \<and>
   response_status (post_thumbnail env_slow \<lparr>video = Some clip, quality = None\<rparr> server0)
     = Some 500 \<and>
   response_status (post_thumbnail env_slow \<lparr>video = Some clip, quality = None\<rparr> server0)
     \<noteq> Some 408"
proof -
  have t: "timed_out env_slow (thumb_cmd env_slow clip) 30000"
    by (simp add: slow_run)
  from post_thumbnail_fails
    [of "\<lparr>video = Some clip, quality = None\<rparr>" clip env_slow,
     OF _ clip_accepted timed_out_error [OF t], of server0]
  have "response_status (post_thumbnail env_slow \<lparr>video = Some clip, quality = None\<rparr> server0)
     = Some 500"
    by (auto simp: response_status_def)
  with t show ?thesis by simp
qed

subsection \<open>What a 500 response tells the client\<close>

lemma broken_exec:
  "t \<ge> 500 \<Longrightarrow>
   execWithTimeout c t (run env_broken c) =
     Inl (Error (''Command failed: '' @ c @ [CHR 0x0A] @ ''moov atom not found''))"
  by (simp add: execWithTimeout_def execAsync_def env_broken_def run_env_with run_broken_def
      maxBuffer_def)

lemma broken_message_no_timeout:
  \<open>\<not> str_includes
       (''Command failed: '' @
        stage1_cmd env_broken clip \<lparr>video = Some clip, quality = Some ''low''\<rparr> @
        [CHR 0x0A] @ ''moov atom not found'') ''timeout''\<close>
  unfolding env_broken_def clip_stage1_cmd by simp

text \<open>
  C4 (what a 500 response holds). The details of a 500 response are the message of the
  caught error, and for a command that exits with an error this message is the whole
  command line followed by the tool's error output: the response of either route then
  holds the paths of the stored upload and of the other artifacts in the upload
  directory.
\<close>

theorem failure_details_hold_paths:
  \<open>response_status (post_thumbnail env_broken \<lparr>video = Some clip, quality = None\<rparr> server0)
     = Some 500 \<and>
   response_body (post_thumbnail env_broken \<lparr>video = Some clip, quality = None\<rparr> server0)
     = Some (Json [(''error'', JString ''Failed to generate thumbnail''),
                   (''details'', JString
                      (''Command failed: ffmpeg -i "/usr/src/app/uploads/1700000000000-my_clip.mp4" -ss 00:00:01 -vframes 1 -vf "scale=320:-1" "/usr/src/app/uploads/thumb-1700000000000-my_clip.jpg"'' @
                       [CHR 0x0A] @ ''moov atom not found''))]) \<and>
   response_status
     (post_convert env_broken \<lparr>video = Some clip, quality = Some ''low''\<rparr> server0)
     = Some 500 \<and>
   response_body
     (post_convert env_broken \<lparr>video = Some clip, quality = Some ''low''\<rparr> server0)
     = Some (Json [(''error'', JString ''Video conversion failed''),
                   (''details'', JString
                      (''Command failed: ffmpeg -i "/usr/src/app/uploads/1700000000000-my_clip.mp4" -vf "fps=10,scale=320:-1:flags=lanczos,palettegen=max_colors=128" -y "/usr/src/app/uploads/palette-1700000000250.png"'' @
                       [CHR 0x0A] @ ''moov atom not found''))]) \<and>
   path (diskStorage env_broken clip) = ''/usr/src/app/uploads/1700000000000-my_clip.mp4''\<close>
proof -
  have pr: "truthy (chosen_preset \<lparr>video = Some clip, quality = Some ''low''\<rparr>)"
    by (simp add: preset_low)
  from post_thumbnail_fails
    [of "\<lparr>video = Some clip, quality = None\<rparr>" clip env_broken,
     OF _ clip_accepted broken_exec, of server0]
  obtain s' where t: "post_thumbnail env_broken \<lparr>video = Some clip, quality = None\<rparr> server0 =
     Inr (Some (\<lparr>status = 500,
           body = Json [(''error'', JString ''Failed to generate thumbnail''),
                        (''details'', JString (message (Error (''Command failed: '' @
                            thumb_cmd env_broken clip @ [CHR 0x0A] @ ''moov atom not found''))))]\<rparr>),
          s')"
    by auto
  from post_convert_stage1_fails
    [of "\<lparr>video = Some clip, quality = Some ''low''\<rparr>" clip env_broken,
     OF _ clip_accepted pr broken_exec, of server0]
  obtain s'' where c: "post_convert env_broken \<lparr>video = Some clip, quality = Some ''low''\<rparr> server0 =
     Inr (Some (convert_error_response (Error (''Command failed: '' @
            stage1_cmd env_broken clip \<lparr>video = Some clip, quality = Some ''low''\<rparr> @
            [CHR 0x0A] @ ''moov atom not found''))), s'')"
    by (auto simp: FFMPEG_TIMEOUT_def)
  have r: "convert_error_response (Error (''Command failed: '' @
            stage1_cmd env_broken clip \<lparr>video = Some clip, quality = Some ''low''\<rparr> @
            [CHR 0x0A] @ ''moov atom not found'')) =
        \<lparr>status = 500,
         body = Json [(''error'', JString ''Video conversion failed''),
                      (''details'', JString (''Command failed: '' @
            stage1_cmd env_broken clip \<lparr>video = Some clip, quality = Some ''low''\<rparr> @
            [CHR 0x0A] @ ''moov atom not found''))]\<rparr>"
    using broken_message_no_timeout
    by (simp add: convert_error_response_def Error_def)
  show ?thesis
    unfolding t c r
    unfolding env_broken_def clip_thumb_cmd clip_stage1_cmd clip_path
    by (simp add: response_status_def response_body_def Error_def)
qed

subsection \<open>The quality field\<close>

lemma Object_keys_presets: "Object_keys QUALITY_PRESETS = [''low'', ''medium'', ''high'']"
  by (simp add: Object_keys_def QUALITY_PRESETS_def)

lemma unknown_quality_undefined:
  assumes "q \<notin> {''low'', ''medium'', ''high''}" and "q \<notin> set Object_prototype_keys"
  shows "get_property QUALITY_PRESETS q = Undefined"
  using assms by (simp add: get_property_def QUALITY_PRESETS_def)

lemma default_preset:
  assumes "quality req = None \<or> quality req = Some []"
  shows "chosen_preset req = PresetObject \<lparr>fps = 15, scale = 480, colors = 256\<rparr>"
  using assms
  by (auto simp: chosen_preset_def or_default_def get_property_def QUALITY_PRESETS_def)

text \<open>
  A name that the object of presets inherits from its prototype passes the validation:
  the looked-up value is truthy, but it is no preset.
\<close>

lemma prototype_key_passes_validation:
  "chosen_preset \<lparr>video = v, quality = Some ''constructor''\<rparr> = PrototypeMember \<and>
   truthy (chosen_preset \<lparr>video = v, quality = Some ''constructor''\<rparr>) \<and>
   show_field fps (chosen_preset \<lparr>video = v, quality = Some ''constructor''\<rparr>) = ''undefined''"
  by (simp add: chosen_preset_def or_default_def get_property_def QUALITY_PRESETS_def
      Object_prototype_keys_def)

text \<open>
  C5 (amended). A /convert request with a stored upload whose quality field is a
  non-empty string other than low, medium and high (and not the name of a member that
  every object inherits from its prototype) is answered with 400, Invalid quality
  setting, and a body that lists exactly low, medium, high; no command is started, so no
  preset is substituted. The default medium applies when the field is absent and also
  when it is the empty string.
\<close>

theorem unknown_quality_rejected:
  "(video req = Some f \<and> accepted f \<and> quality req = Some q \<and> q \<noteq> [] \<and>
    q \<notin> {''low'', ''medium'', ''high''} \<and> q \<notin> set Object_prototype_keys \<longrightarrow>
      response_status (post_convert e req s) = Some 400 \<and>
      response_body (post_convert e req s) =
        Some (Json [(''error'', JString ''Invalid quality setting''),
                    (''allowed'', JArray [''low'', ''medium'', ''high''])]) \<and>
      final_launched (post_convert e req s) = launched s) \<and>
   (quality req = None \<or> quality req = Some [] \<longrightarrow>
      chosen_preset req = PresetObject \<lparr>fps = 15, scale = 480, colors = 256\<rparr>)"
proof (intro conjI impI)
  assume h: "video req = Some f \<and> accepted f \<and> quality req = Some q \<and> q \<noteq> [] \<and>
    q \<notin> {''low'', ''medium'', ''high''} \<and> q \<notin> set Object_prototype_keys"
  then have "chosen_preset req = Undefined"
    by (simp add: chosen_preset_def or_default_def unknown_quality_undefined)
  then have "\<not> truthy (chosen_preset req)" by simp
  with h have out: "post_convert e req s =
           Inr (Some (\<lparr>status = 400,
                 body = Json [(''error'', JString ''Invalid quality setting''),
                              (''allowed'', JArray (Object_keys QUALITY_PRESETS))]\<rparr>),
                s\<lparr>files := insert (path (diskStorage e f)) (files s)\<rparr>)"
    by (intro post_convert_invalid_quality) simp_all
  show "response_status (post_convert e req s) = Some 400"
    unfolding out by (simp add: response_status_def)
  show "response_body (post_convert e req s) =
        Some (Json [(''error'', JString ''Invalid quality setting''),
                    (''allowed'', JArray [''low'', ''medium'', ''high''])])"
    unfolding out by (simp add: response_body_def Object_keys_presets)
  show "final_launched (post_convert e req s) = launched s"
    unfolding out by (simp add: final_launched_def)
next
  assume "quality req = None \<or> quality req = Some []"
  then show "chosen_preset req = PresetObject \<lparr>fps = 15, scale = 480, colors = 256\<rparr>"
    by (rule default_preset)
qed

theorem unknown_quality_rejected_witness:
  "video \<lparr>video = Some clip, quality = Some ''ultra''\<rparr> = Some clip \<and> accepted clip \<and>
   quality \<lparr>video = Some clip, quality = Some ''ultra''\<rparr> = Some ''ultra'' \<and> ''ultra'' \<noteq> [] \<and>
   ''ultra'' \<notin> {''low'', ''medium'', ''high''} \<and> ''ultra'' \<notin> set Object_prototype_keys \<and>
   response_status (post_convert env_ok \<lparr>video = Some clip, quality = Some ''ultra''\<rparr> server0)
     = Some 400 \<and>
   response_body (post_convert env_ok \<lparr>video = Some clip, quality = Some ''ultra''\<rparr> server0)
     = Some (Json [(''error'', JString ''Invalid quality setting''),
                   (''allowed'', JArray [''low'', ''medium'', ''high''])]) \<and>
   final_launched (post_convert env_ok \<lparr>video = Some clip, quality = Some ''ultra''\<rparr> server0)
     = [] \<and>
   quality \<lparr>video = Some clip, quality = None\<rparr> = None \<and>
   chosen_preset \<lparr>video = Some clip, quality = None\<rparr> =
     PresetObject \<lparr>fps = 15, scale = 480, colors = 256\<rparr>"
  using unknown_quality_rejected
          [of "\<lparr>video = Some clip, quality = Some ''ultra''\<rparr>" clip "''ultra''" env_ok server0]
        unknown_quality_rejected
          [of "\<lparr>video = Some clip, quality = None\<rparr>" clip "[]" env_ok server0]
        clip_accepted
  by (simp add: Object_prototype_keys_def server0_def)

lemma preset_default_empty:
  "chosen_preset \<lparr>video = v, quality = Some []\<rparr> =
     PresetObject \<lparr>fps = 15, scale = 480, colors = 256\<rparr>"
  by (simp add: default_preset)

lemma clip_stage1_cmd_empty:
  \<open>stage1_cmd (env_with r) clip \<lparr>video = Some clip, quality = Some []\<rparr> =
     ''ffmpeg -i "/usr/src/app/uploads/1700000000000-my_clip.mp4" -vf "fps=15,scale=480:-1:flags=lanczos,palettegen=max_colors=256" -y "/usr/src/app/uploads/palette-1700000000250.png"''\<close>
  by (simp add: stage1_cmd_def paletteCmd_def clip_path clip_paletteFile preset_default_empty
      digit_char_def)

lemma clip_stage2_cmd_empty:
  \<open>stage2_cmd (env_with r) clip \<lparr>video = Some clip, quality = Some []\<rparr> =
     ''ffmpeg -i "/usr/src/app/uploads/1700000000000-my_clip.mp4" -i "/usr/src/app/uploads/palette-1700000000250.png" -lavfi "fps=15,scale=480:-1:flags=lanczos[x];[x][1:v]paletteuse" -y "/usr/src/app/uploads/1700000000000-my_clip.gif"''\<close>
  by (simp add: stage2_cmd_def convertCmd_def clip_path clip_paletteFile clip_outputPath
      preset_default_empty digit_char_def)

lemma converts_empty_run1:
  "run env_converts
     (stage1_cmd env_converts clip \<lparr>video = Some clip, quality = Some []\<rparr>)
   = run_palette"
  unfolding env_converts_def run_env_with clip_stage1_cmd_empty by simp

lemma converts_empty_run2:
  "run env_converts
     (stage2_cmd env_converts clip \<lparr>video = Some clip, quality = Some []\<rparr>)
   = run_encode"
  unfolding env_converts_def run_env_with clip_stage2_cmd_empty by simp

text \<open>
  As first stated the property fails: a quality field that is present and empty is none
  of the three names, yet the request is converted with the preset medium (15 frames
  per second, width 480, 256 colours) and answered with the GIF.
\<close>

theorem empty_quality_counterexample:
  \<open>quality \<lparr>video = Some clip, quality = Some []\<rparr> = Some [] \<and>
   [] \<notin> {''low'', ''medium'', ''high''} \<and>
   chosen_preset \<lparr>video = Some clip, quality = Some []\<rparr> =
     PresetObject \<lparr>fps = 15, scale = 480, colors = 256\<rparr> \<and>
   response_status (post_convert env_converts \<lparr>video = Some clip, quality = Some []\<rparr> server0)
     = Some 200 \<and>
   final_launched (post_convert env_converts \<lparr>video = Some clip, quality = Some []\<rparr> server0)
     = [(''ffmpeg -i "/usr/src/app/uploads/1700000000000-my_clip.mp4" -vf "fps=15,scale=480:-1:flags=lanczos,palettegen=max_colors=256" -y "/usr/src/app/uploads/palette-1700000000250.png"'',
         60000),
        (''ffmpeg -i "/usr/src/app/uploads/1700000000000-my_clip.mp4" -i "/usr/src/app/uploads/palette-1700000000250.png" -lavfi "fps=15,scale=480:-1:flags=lanczos[x];[x][1:v]paletteuse" -y "/usr/src/app/uploads/1700000000000-my_clip.gif"'',
         120000)]\<close>
proof -
  have pr: "chosen_preset \<lparr>video = Some clip, quality = Some []\<rparr> =
     PresetObject \<lparr>fps = 15, scale = 480, colors = 256\<rparr>"
    by (rule preset_default_empty)
  then have tr: "truthy (chosen_preset \<lparr>video = Some clip, quality = Some []\<rparr>)"
    by simp
  have ok1: "execWithTimeout
      (stage1_cmd env_converts clip \<lparr>video = Some clip, quality = Some []\<rparr>)
      (FFMPEG_TIMEOUT div 2)
      (run env_converts
         (stage1_cmd env_converts clip \<lparr>video = Some clip, quality = Some []\<rparr>))
      = Inr ([], [])"
    unfolding converts_empty_run1
    by (simp add: execWithTimeout_def execAsync_def run_palette_def FFMPEG_TIMEOUT_def
        maxBuffer_def)
  have ok2: "execWithTimeout
      (stage2_cmd env_converts clip \<lparr>video = Some clip, quality = Some []\<rparr>)
      FFMPEG_TIMEOUT
      (run env_converts
         (stage2_cmd env_converts clip \<lparr>video = Some clip, quality = Some []\<rparr>))
      = Inr ([], [])"
    unfolding converts_empty_run2
    by (simp add: execWithTimeout_def execAsync_def run_encode_def FFMPEG_TIMEOUT_def
        maxBuffer_def)
  have there: "outputPath (diskStorage env_converts clip) \<in>
      insert (path (diskStorage env_converts clip)) (files server0)
        \<union> written (run env_converts
             (stage1_cmd env_converts clip \<lparr>video = Some clip, quality = Some []\<rparr>))
        \<union> written (run env_converts
             (stage2_cmd env_converts clip \<lparr>video = Some clip, quality = Some []\<rparr>)) \<and>
      send_error env_converts = None"
    unfolding converts_empty_run1 converts_empty_run2
    unfolding env_converts_def clip_outputPath
    by (simp add: run_encode_def env_with_def)
  from post_convert_succeeds
    [of "\<lparr>video = Some clip, quality = Some []\<rparr>" clip env_converts,
     OF _ clip_accepted tr ok1 ok2, of server0]
  obtain s' where
    out: "post_convert env_converts \<lparr>video = Some clip, quality = Some []\<rparr> server0 =
       Inr (Some \<lparr>status = 200, body = SendFile (outputPath (diskStorage env_converts clip))\<rparr>,
            s')"
    and la: "launched s' = launched server0 @
       [(stage1_cmd env_converts clip \<lparr>video = Some clip, quality = Some []\<rparr>,
         FFMPEG_TIMEOUT div 2),
        (stage2_cmd env_converts clip \<lparr>video = Some clip, quality = Some []\<rparr>,
         FFMPEG_TIMEOUT)]"
    using there by auto
  have st: "response_status
      (post_convert env_converts \<lparr>video = Some clip, quality = Some []\<rparr> server0) = Some 200"
    unfolding out by (simp add: response_status_def)
  have fl: \<open>final_launched
      (post_convert env_converts \<lparr>video = Some clip, quality = Some []\<rparr> server0)
     = [(''ffmpeg -i "/usr/src/app/uploads/1700000000000-my_clip.mp4" -vf "fps=15,scale=480:-1:flags=lanczos,palettegen=max_colors=256" -y "/usr/src/app/uploads/palette-1700000000250.png"'',
         60000),
        (''ffmpeg -i "/usr/src/app/uploads/1700000000000-my_clip.mp4" -i "/usr/src/app/uploads/palette-1700000000250.png" -lavfi "fps=15,scale=480:-1:flags=lanczos[x];[x][1:v]paletteuse" -y "/usr/src/app/uploads/1700000000000-my_clip.gif"'',
         120000)]\<close>
    unfolding out final_launched_def
    using la unfolding env_converts_def clip_stage1_cmd_empty clip_stage2_cmd_empty
    by (simp add: server0_def FFMPEG_TIMEOUT_def)
  from pr st fl show ?thesis by simp
qed

subsection \<open>Decimal rendering\<close>

lemma digit_cases:
  "d < 10 \<Longrightarrow> d = 0 \<or> d = 1 \<or> d = 2 \<or> d = 3 \<or> d = 4 \<or> d = 5 \<or> d = 6 \<or> d = 7 \<or> d = 8 \<or> d = (9::nat)"
  by arith

lemma is_digit_digit_char: "d < 10 \<Longrightarrow> is_digit (digit_char d)"
  by (drule digit_cases) (auto simp: digit_char_def is_digit_def)

lemma digit_char_inj: "d < 10 \<Longrightarrow> e < 10 \<Longrightarrow> digit_char d = digit_char e \<Longrightarrow> d = e"
  by (drule digit_cases, drule digit_cases) (auto simp: digit_char_def)

lemma string_of_nat_digits: "list_all is_digit (string_of_nat n)"
  by (induction n rule: string_of_nat.induct)
    (subst string_of_nat.simps, simp add: is_digit_digit_char)

lemma string_of_nat_nonempty: "string_of_nat n \<noteq> []"
  by (subst string_of_nat.simps) simp

lemma string_of_nat_inj: "string_of_nat m = string_of_nat n \<Longrightarrow> m = n"
proof (induction m arbitrary: n rule: string_of_nat.induct)
  case (1 m)
  show ?case
  proof (cases "m < 10")
    case True
    then have m1: "string_of_nat m = [digit_char m]" by (subst string_of_nat.simps) simp
    show ?thesis
    proof (cases "n < 10")
      case n: True
      then have "string_of_nat n = [digit_char n]" by (subst string_of_nat.simps) simp
      with m1 "1.prems" have "digit_char m = digit_char n" by simp
      with True n show ?thesis by (rule digit_char_inj)
    next
      case n: False
      then have "string_of_nat n = string_of_nat (n div 10) @ [digit_char (n mod 10)]"
        by (subst string_of_nat.simps) simp
      with m1 "1.prems" have "string_of_nat (n div 10) = []" by simp
      then show ?thesis by (simp add: string_of_nat_nonempty)
    qed
  next
    case False
    then have m2: "string_of_nat m = string_of_nat (m div 10) @ [digit_char (m mod 10)]"
      by (subst string_of_nat.simps) simp
    show ?thesis
    proof (cases "n < 10")
      case n: True
      then have "string_of_nat n = [digit_char n]" by (subst string_of_nat.simps) simp
      with m2 "1.prems" have "string_of_nat (m div 10) = []" by simp
      then show ?thesis by (simp add: string_of_nat_nonempty)
    next
      case n: False
      then have "string_of_nat n = string_of_nat (n div 10) @ [digit_char (n mod 10)]"
        by (subst string_of_nat.simps) simp
      with m2 "1.prems" have eq: "string_of_nat (m div 10) = string_of_nat (n div 10)"
        and d: "digit_char (m mod 10) = digit_char (n mod 10)" by simp_all
      from "1.IH" [OF False eq] have "m div 10 = n div 10" .
      moreover from d have "m mod 10 = n mod 10" by (intro digit_char_inj) simp_all
      ultimately show ?thesis by (metis div_mult_mod_eq)
    qed
  qed
qed

subsection \<open>Names that start with a timestamp\<close>

lemma dash_not_digit: "\<not> is_digit (CHR ''-'')"
  by (simp add: is_digit_def)

lemma dot_not_digit: "\<not> is_digit (CHR ''.'')"
  by (simp add: is_digit_def)

lemma stamped_takeWhile: "stamped t x \<Longrightarrow> takeWhile is_digit x = string_of_nat t"
proof -
  assume "stamped t x"
  then obtain rest where x: "x = string_of_nat t @ CHR ''-'' # rest"
    by (auto simp: stamped_def)
  have "\<forall>c \<in> set (string_of_nat t). is_digit c"
    using string_of_nat_digits [of t] by (simp add: list_all_iff)
  then show ?thesis
    unfolding x by (simp add: takeWhile_append2 dash_not_digit)
qed

lemma stamped_inj: "stamped t1 x \<Longrightarrow> stamped t2 x \<Longrightarrow> t1 = t2"
  using stamped_takeWhile [of t1 x] stamped_takeWhile [of t2 x]
  by (simp add: string_of_nat_inj)

lemma stamped_append: "stamped t x \<Longrightarrow> stamped t (x @ y)"
  by (auto simp: stamped_def)

lemma stamped_hd: "stamped t x \<Longrightarrow> x \<noteq> [] \<and> is_digit (hd x)"
proof -
  assume "stamped t x"
  then obtain rest where x: "x = string_of_nat t @ CHR ''-'' # rest"
    by (auto simp: stamped_def)
  obtain d ds where ds: "string_of_nat t = d # ds"
    using string_of_nat_nonempty [of t] by (cases "string_of_nat t") auto
  with string_of_nat_digits [of t] have "is_digit d" by simp
  with x ds show ?thesis by simp
qed

lemma stamped_filename: "stamped (now_upload e) (storage_filename e f)"
  by (auto simp: stamped_def storage_filename_def)

lemma basename_extname_cases:
  "basename p (extname p) = p \<or>
   (\<exists>k. k < length p \<and> p ! k = CHR ''.'' \<and> basename p (extname p) = take k p)"
proof -
  define n where "n = length (takeWhile (\<lambda>c. c \<noteq> CHR ''.'') (rev p))"
  show ?thesis
  proof (cases "n = length p \<or> Suc n = length p \<or> p = ''..''")
    case True
    then have "extname p = []"
      by (auto simp: extname_def n_def [symmetric] Let_def)
    then show ?thesis by (simp add: basename_def)
  next
    case False
    have "n \<le> length p"
      using length_takeWhile_le [of "\<lambda>c. c \<noteq> CHR ''.''" "rev p"] by (simp add: n_def)
    with False have n: "Suc n < length p" by auto
    define k where "k = length p - Suc n"
    from n have k: "k < length p" "0 < k" by (simp_all add: k_def)
    from False have ext: "extname p = drop k p"
      by (simp add: extname_def n_def [symmetric] Let_def k_def)
    have "n < length (rev p)" using n by simp
    then have "\<not> (rev p ! n \<noteq> CHR ''.'')"
      unfolding n_def by (rule nth_length_takeWhile)
    moreover have "rev p ! n = p ! k"
      using n by (simp add: rev_nth k_def)
    ultimately have dot: "p ! k = CHR ''.''" by simp
    have "drop k p \<noteq> []" "drop k p \<noteq> p" "length (drop k p) \<le> length p"
      "suffix (drop k p) p" "length p - length (drop k p) = k"
      using k by (auto simp: suffix_drop dest: arg_cong [where f = length])
    then have "basename p (extname p) = take k p"
      by (simp add: basename_def ext)
    with k dot show ?thesis by blast
  qed
qed

lemma stamped_basename:
  assumes "stamped t p"
  shows "stamped t (basename p (extname p))"
proof -
  from assms obtain rest where p: "p = string_of_nat t @ CHR ''-'' # rest"
    by (auto simp: stamped_def)
  from basename_extname_cases [of p] show ?thesis
  proof
    assume "basename p (extname p) = p"
    with assms show ?thesis by simp
  next
    assume "\<exists>k. k < length p \<and> p ! k = CHR ''.'' \<and> basename p (extname p) = take k p"
    then obtain k where k: "k < length p" "p ! k = CHR ''.''"
      and b: "basename p (extname p) = take k p" by blast
    have "length (string_of_nat t) < k"
    proof (rule ccontr)
      assume "\<not> length (string_of_nat t) < k"
      then have "k < length (string_of_nat t) \<or> k = length (string_of_nat t)" by arith
      then show False
      proof
        assume lt: "k < length (string_of_nat t)"
        then have "p ! k = string_of_nat t ! k" by (simp add: p nth_append)
        moreover have "is_digit (string_of_nat t ! k)"
          using string_of_nat_digits [of t] lt by (simp add: list_all_length)
        ultimately show False using k(2) dot_not_digit by simp
      next
        assume "k = length (string_of_nat t)"
        then have "p ! k = CHR ''-''" by (simp add: p)
        with k(2) show False by simp
      qed
    qed
    then have "take k p = string_of_nat t @ CHR ''-'' # take (k - Suc (length (string_of_nat t))) rest"
      by (simp add: p take_Cons')
    with b show ?thesis by (auto simp: stamped_def)
  qed
qed

subsection \<open>Artifact paths of two requests\<close>

lemma stamped_neq: "stamped t1 x \<Longrightarrow> stamped t2 y \<Longrightarrow> t1 \<noteq> t2 \<Longrightarrow> x \<noteq> y"
  using stamped_inj by blast

lemma stamped_not_thumb: "stamped t x \<Longrightarrow> x \<noteq> ''thumb-'' @ y"
  using stamped_hd [of t x] by (auto simp: is_digit_def)

lemma stamped_not_palette: "stamped t x \<Longrightarrow> x \<noteq> ''palette-'' @ y"
  using stamped_hd [of t x] by (auto simp: is_digit_def)

lemma path_join_inj: "path_join d a = path_join d b \<longleftrightarrow> a = b"
  by (simp add: path_join_def)

text \<open>
  C6 (amended). The disambiguator of a path is the millisecond clock, not a counter: two
  requests whose uploads are named at different milliseconds and whose palettes are
  named at different milliseconds have no artifact path in common (input, palette,
  output and thumbnail paths of the one against those of the other).
\<close>

theorem artifact_paths_disjoint:
  assumes "now_upload e1 \<noteq> now_upload e2" and "now_palette e1 \<noteq> now_palette e2"
  shows "set (artifact_paths e1 f1) \<inter> set (artifact_paths e2 f2) = {}"
proof -
  define n1 where "n1 = storage_filename e1 f1"
  define n2 where "n2 = storage_filename e2 f2"
  define b1 where "b1 = basename n1 (extname n1)"
  define b2 where "b2 = basename n2 (extname n2)"
  define p1 where "p1 = string_of_nat (now_palette e1)"
  define p2 where "p2 = string_of_nat (now_palette e2)"
  have st: "stamped (now_upload e1) n1" "stamped (now_upload e2) n2"
    "stamped (now_upload e1) (b1 @ ''.gif'')" "stamped (now_upload e2) (b2 @ ''.gif'')"
    "stamped (now_upload e1) (b1 @ ''.jpg'')" "stamped (now_upload e2) (b2 @ ''.jpg'')"
    by (simp_all add: n1_def n2_def b1_def b2_def stamped_filename stamped_basename
        stamped_append)
  have paths:
    "artifact_paths e1 f1 =
       [path_join uploadDir n1, path_join uploadDir (''palette-'' @ p1 @ ''.png''),
        path_join uploadDir (b1 @ ''.gif''), path_join uploadDir (''thumb-'' @ b1 @ ''.jpg'')]"
    "artifact_paths e2 f2 =
       [path_join uploadDir n2, path_join uploadDir (''palette-'' @ p2 @ ''.png''),
        path_join uploadDir (b2 @ ''.gif''), path_join uploadDir (''thumb-'' @ b2 @ ''.jpg'')]"
    by (simp_all add: artifact_paths_def diskStorage_def paletteFile_def outputPath_def
        thumbnailPath_def n1_def n2_def b1_def b2_def p1_def p2_def)
  have pal: "p1 \<noteq> p2"
    using assms(2) string_of_nat_inj by (auto simp: p1_def p2_def)
  note a = assms(1) assms(1) [symmetric]
  have stamped_stamped:
    "n1 \<noteq> n2" "n1 \<noteq> b2 @ ''.gif''" "b1 @ ''.gif'' \<noteq> n2" "b1 @ ''.gif'' \<noteq> b2 @ ''.gif''"
    "b1 @ ''.jpg'' \<noteq> b2 @ ''.jpg''"
    by (rule stamped_neq [OF st(1) st(2) a(1)], rule stamped_neq [OF st(1) st(4) a(1)],
        rule stamped_neq [OF st(3) st(2) a(1)], rule stamped_neq [OF st(3) st(4) a(1)],
        rule stamped_neq [OF st(5) st(6) a(1)])
  have stamped_other:
    "n1 \<noteq> ''thumb-'' @ b2 @ ''.jpg''" "n1 \<noteq> ''palette-'' @ p2 @ ''.png''"
    "b1 @ ''.gif'' \<noteq> ''thumb-'' @ b2 @ ''.jpg''" "b1 @ ''.gif'' \<noteq> ''palette-'' @ p2 @ ''.png''"
    "n2 \<noteq> ''thumb-'' @ b1 @ ''.jpg''" "n2 \<noteq> ''palette-'' @ p1 @ ''.png''"
    "b2 @ ''.gif'' \<noteq> ''thumb-'' @ b1 @ ''.jpg''" "b2 @ ''.gif'' \<noteq> ''palette-'' @ p1 @ ''.png''"
    by (rule stamped_not_thumb [OF st(1)], rule stamped_not_palette [OF st(1)],
        rule stamped_not_thumb [OF st(3)], rule stamped_not_palette [OF st(3)],
        rule stamped_not_thumb [OF st(2)], rule stamped_not_palette [OF st(2)],
        rule stamped_not_thumb [OF st(4)], rule stamped_not_palette [OF st(4)])
  show ?thesis
    unfolding paths
    using stamped_stamped stamped_other stamped_other [symmetric] pal
    by (simp add: path_join_inj)
qed

theorem artifact_paths_disjoint_witness:
  "now_upload env_ok \<noteq> now_upload env_later \<and> now_palette env_ok \<noteq> now_palette env_later \<and>
   set (artifact_paths env_ok clip) \<inter> set (artifact_paths env_later clip) = {} \<and>
   artifact_paths env_ok clip =
     [''/usr/src/app/uploads/1700000000000-my_clip.mp4'',
      ''/usr/src/app/uploads/palette-1700000000250.png'',
      ''/usr/src/app/uploads/1700000000000-my_clip.gif'',
      ''/usr/src/app/uploads/thumb-1700000000000-my_clip.jpg'']"
proof -
  have t: "now_upload env_ok \<noteq> now_upload env_later" "now_palette env_ok \<noteq> now_palette env_later"
    by (simp_all add: env_ok_def env_with_def env_later_def)
  have "artifact_paths env_ok clip =
     [''/usr/src/app/uploads/1700000000000-my_clip.mp4'',
      ''/usr/src/app/uploads/palette-1700000000250.png'',
      ''/usr/src/app/uploads/1700000000000-my_clip.gif'',
      ''/usr/src/app/uploads/thumb-1700000000000-my_clip.jpg'']"
    unfolding artifact_paths_def env_ok_def clip_path clip_paletteFile clip_outputPath
      clip_thumbnailPath by (rule refl)
  with t artifact_paths_disjoint [OF t, of clip clip] show ?thesis by simp
qed

text \<open>
  As first stated the property fails: two requests that arrive within one millisecond
  with the file names \<^verbatim>\<open>my clip.mp4\<close> and \<^verbatim>\<open>my_clip.mp4\<close> get the same input path, and
  the same palette path.
\<close>

theorem same_millisecond_counterexample:
  "clip \<noteq> clip2 \<and> env_ok \<noteq> env_slow \<and>
   path (diskStorage env_ok clip) = path (diskStorage env_slow clip2) \<and>
   paletteFile env_ok = paletteFile env_slow"
proof -
  have "originalname clip \<noteq> originalname clip2"
    by (simp add: clip_def clip2_def)
  then have c: "clip \<noteq> clip2" by auto
  have "run env_ok [] \<noteq> run env_slow []"
    by (simp add: env_ok_def env_slow_def run_env_with run_ok_def run_slow_def)
  then have e: "env_ok \<noteq> env_slow" by auto
  have "path (diskStorage env_ok clip) = path (diskStorage env_slow clip2)"
    by (simp add: diskStorage_def storage_filename_def env_ok_def env_slow_def env_with_def
        clip_def clip2_def safe_char_def)
  moreover have "paletteFile env_ok = paletteFile env_slow"
    by (simp add: paletteFile_def env_ok_def env_slow_def env_with_def)
  ultimately show ?thesis using c e by simp
qed

subsection \<open>A failure that is taken for a timeout\<close>

text \<open>
  The test for a timeout is a search for the word in the message of the error. The
  message of a failed command holds the command line, and with it the sanitized file
  name: a conversion of \<^verbatim>\<open>timeout.mp4\<close> that fails at once, with exit code 1, is answered
  with 408 as well.
\<close>

lemma failure_named_timeout_answered_408:
  "\<not> timed_out env_broken
       (stage1_cmd env_broken clip_timeout \<lparr>video = Some clip_timeout, quality = None\<rparr>)
       (FFMPEG_TIMEOUT div 2) \<and>
   response_status
     (post_convert env_broken \<lparr>video = Some clip_timeout, quality = None\<rparr> server0) = Some 408"
proof -
  have acc: "accepted clip_timeout"
    by (simp add: accepted_def clip_timeout_def ALLOWED_MIME_TYPES_def MAX_FILE_SIZE_def)
  have pr: "truthy (chosen_preset \<lparr>video = Some clip_timeout, quality = None\<rparr>)"
    by (simp add: default_preset)
  have nt: "\<not> timed_out env_broken c (FFMPEG_TIMEOUT div 2)" for c
    by (simp add: timed_out_def env_broken_def run_env_with run_broken_def FFMPEG_TIMEOUT_def)
  have p: "path (diskStorage env_broken clip_timeout)
      = ''/usr/src/app/uploads/1700000000000-timeout.mp4''"
    by (simp add: diskStorage_def storage_filename_def env_broken_def env_with_def
        clip_timeout_def uploadDir_eq path_join_def digit_char_def safe_char_def)
  have "str_includes
      (''Command failed: '' @
       stage1_cmd env_broken clip_timeout \<lparr>video = Some clip_timeout, quality = None\<rparr> @
       [CHR 0x0A] @ ''moov atom not found'') ''timeout''"
    unfolding stage1_cmd_def paletteCmd_def p by simp
  then have r: "status (convert_error_response (Error (''Command failed: '' @
       stage1_cmd env_broken clip_timeout \<lparr>video = Some clip_timeout, quality = None\<rparr> @
       [CHR 0x0A] @ ''moov atom not found''))) = 408"
    by (simp add: convert_error_response_def Error_def)
  from post_convert_stage1_fails
    [of "\<lparr>video = Some clip_timeout, quality = None\<rparr>" clip_timeout env_broken,
     OF _ acc pr broken_exec, of server0]
  obtain s' where "post_convert env_broken \<lparr>video = Some clip_timeout, quality = None\<rparr> server0 =
     Inr (Some (convert_error_response (Error (''Command failed: '' @
            stage1_cmd env_broken clip_timeout \<lparr>video = Some clip_timeout, quality = None\<rparr> @
            [CHR 0x0A] @ ''moov atom not found''))), s')"
    by (auto simp: FFMPEG_TIMEOUT_def)
  with r nt show ?thesis by (simp add: response_status_def)
qed

end
